theory Spec2Isabelle
  imports Main
begin

section \<open>Python values and strings\<close>

text \<open>
  A Python \<open>str\<close> is a sequence of Unicode code points, so it is modelled as a list of
  natural numbers (one per code point), not as a list of bytes: \<open>str.strip\<close> and
  equality work on code points. \<open>ascii\<close> embeds an ASCII literal of the source.
\<close>

type_synonym pystr = "nat list"

definition ascii :: "string \<Rightarrow> pystr" where
  "ascii s = map of_char s"

text \<open>
  The values found in \<open>tool_parameters\<close> and in an account record
  (\<open>Dict[str, Any]\<close>): strings, integers, booleans and \<open>None\<close>.
\<close>

datatype pyval = VStr pystr | VInt int | VBool bool | VNone

text \<open>A \<open>dict\<close> with string keys, as an association list read with \<open>map_of\<close>.\<close>

type_synonym pydict = "(pystr \<times> pyval) list"

text \<open>\<open>d.get(k)\<close> gives \<open>None\<close> for a missing key, \<open>d.get(k, default)\<close> the default.\<close>

definition dict_get :: "pydict \<Rightarrow> pystr \<Rightarrow> pyval" where
  "dict_get d k = (case map_of d k of None \<Rightarrow> VNone | Some v \<Rightarrow> v)"

definition dict_get_default :: "pydict \<Rightarrow> pystr \<Rightarrow> pyval \<Rightarrow> pyval" where
  "dict_get_default d k dflt = (case map_of d k of None \<Rightarrow> dflt | Some v \<Rightarrow> v)"

text \<open>Truth value testing (\<open>if x:\<close>, \<open>not x\<close>).\<close>

fun truthy :: "pyval \<Rightarrow> bool" where
  "truthy (VStr s) = (s \<noteq> [])"
| "truthy (VInt i) = (i \<noteq> 0)"
| "truthy (VBool b) = b"
| "truthy VNone = False"

text \<open>\<open>a == b\<close>: a \<open>bool\<close> is an \<open>int\<close> (\<open>True == 1\<close>); no other types mix.\<close>

fun as_int :: "pyval \<Rightarrow> int option" where
  "as_int (VInt i) = Some i"
| "as_int (VBool b) = Some (if b then 1 else 0)"
| "as_int _ = None"

fun py_eq :: "pyval \<Rightarrow> pyval \<Rightarrow> bool" where
  "py_eq (VStr a) (VStr b) = (a = b)"
| "py_eq (VStr a) _ = False"
| "py_eq _ (VStr b) = False"
| "py_eq VNone VNone = True"
| "py_eq VNone _ = False"
| "py_eq _ VNone = False"
| "py_eq a b = (as_int a = as_int b)"

text \<open>Decimal digits of a natural number, and \<open>str(v)\<close> (also what an f-string inserts).\<close>

function nat_digits :: "nat \<Rightarrow> pystr" where
  "nat_digits n = (if n < 10 then [48 + n] else nat_digits (n div 10) @ [48 + n mod 10])"
  by pat_completeness auto
termination
  by (relation "measure id") auto

declare nat_digits.simps [simp del]

fun py_str :: "pyval \<Rightarrow> pystr" where
  "py_str (VStr s) = s"
| "py_str (VInt i) = (if i < 0 then 45 # nat_digits (nat (- i)) else nat_digits (nat i))"
| "py_str (VBool b) = (if b then ascii ''True'' else ascii ''False'')"
| "py_str VNone = ascii ''None''"

fun type_name :: "pyval \<Rightarrow> pystr" where
  "type_name (VStr _) = ascii ''str''"
| "type_name (VInt _) = ascii ''int''"
| "type_name (VBool _) = ascii ''bool''"
| "type_name VNone = ascii ''NoneType''"

subsection \<open>\<open>str.split\<close>, \<open>str.strip\<close>, \<open>str.join\<close>\<close>

text \<open>
  \<open>s.split(sep)\<close> for a one-character separator: the segments between the separators,
  in order; never an empty list (\<open>''.split(',') == ['']\<close>).
\<close>

fun str_split :: "pystr \<Rightarrow> nat \<Rightarrow> pystr list" where
  "str_split [] sep = [[]]"
| "str_split (c # cs) sep =
     (if c = sep then [] # str_split cs sep
      else (case str_split cs sep of
              [] \<Rightarrow> [[c]]
            | seg # segs \<Rightarrow> (c # seg) # segs))"

text \<open>The code points \<open>str.isspace\<close> accepts, which are those \<open>str.strip()\<close> removes.\<close>

definition isspace :: "nat \<Rightarrow> bool" where
  "isspace c \<longleftrightarrow>
     (0x9 \<le> c \<and> c \<le> 0xD) \<or> (0x1C \<le> c \<and> c \<le> 0x20) \<or> c = 0x85 \<or> c = 0xA0 \<or>
     c = 0x1680 \<or> (0x2000 \<le> c \<and> c \<le> 0x200A) \<or> c = 0x2028 \<or> c = 0x2029 \<or>
     c = 0x202F \<or> c = 0x205F \<or> c = 0x3000"

definition str_strip :: "pystr \<Rightarrow> pystr" where
  "str_strip s = rev (dropWhile isspace (rev (dropWhile isspace s)))"

fun str_join :: "pystr \<Rightarrow> pystr list \<Rightarrow> pystr" where
  "str_join sep [] = []"
| "str_join sep [x] = x"
| "str_join sep (x # y # ys) = x @ sep @ str_join sep (y # ys)"

definition comma :: nat where
  "comma = 0x2C"

section \<open>Recipient parsing\<close>

text \<open>
  The comprehension used for \<open>to_emails\<close>, \<open>cc_emails\<close> and \<open>bcc_emails\<close>:
  \<^verbatim>\<open>[email.strip() for email in s.split(',') if email.strip()]\<close>
\<close>

definition parse_emails :: "pystr \<Rightarrow> pystr list" where
  "parse_emails s =
     map str_strip (filter (\<lambda>email. str_strip email \<noteq> []) (str_split s comma))"

text \<open>
  The parsing as the specification words it: split on the comma, trim every element,
  drop the empty ones.
\<close>

definition parse_spec :: "pystr \<Rightarrow> pystr list" where
  "parse_spec s = filter (\<lambda>e. e \<noteq> []) (map str_strip (str_split s comma))"


section \<open>Exceptions, messages and the outside world\<close>

text \<open>
  The exceptions the handler can meet; all are subclasses of \<open>Exception\<close>. A
  \<open>KeyError\<close> carries the missing key, the others their message; \<open>OtherError\<close> is any
  exception raised inside the \<open>email\<close> or \<open>smtplib\<close> library, with its text.
\<close>

datatype exn =
    KeyError pystr
  | IndexError pystr
  | TypeError pystr
  | ValueError pystr
  | AttributeError pystr
  | OtherError pystr

text \<open>
  \<open>str(e)\<close>. For a \<open>KeyError\<close> it is the \<open>repr\<close> of the key, which for the keys the
  handler subscripts with (ASCII identifiers) is the key between single quotes.
\<close>

definition quote :: nat where
  "quote = 0x27"

fun exn_str :: "exn \<Rightarrow> pystr" where
  "exn_str (KeyError k) = quote # k @ [quote]"
| "exn_str (IndexError m) = m"
| "exn_str (TypeError m) = m"
| "exn_str (ValueError m) = m"
| "exn_str (AttributeError m) = m"
| "exn_str (OtherError m) = m"

text \<open>What \<open>create_text_message\<close> and \<open>create_json_message\<close> of the host build.\<close>

datatype tool_msg = TextMessage pystr | JsonMessage pydict

text \<open>
  A block of statements either raises, or returns a message from the handler early, or
  goes on with a value.
\<close>

datatype 'a outcome = Raise exn | Return tool_msg | Continue 'a

text \<open>
  The MIME message under construction: the arguments of \<open>MIMEText\<close> and the header
  list in insertion order. A header value is a plain string (set by \<open>MIMEText\<close>
  itself) or a \<open>Header(text, charset)\<close> object.
\<close>

datatype hval = HStr pystr | HHeader pyval pyval

record message =
  payload :: pyval
  subtype :: pyval
  charset :: pyval
  headers :: "(pystr \<times> hval) list"

text \<open>What the handler asks of the mail transport, in order.\<close>

datatype event =
    Connect pyval int
  | Login pyval pyval
  | Sendmail pyval "pystr list" pystr
  | Release

text \<open>
  The collaborators outside the repository, as parameters: the built-in \<open>int\<close> on a
  string; the \<open>email\<close> library (\<open>MIMEText\<close> gives the values of the
  \<open>Content-Type\<close> and \<open>Content-Transfer-Encoding\<close> headers it sets, \<open>Header\<close> may
  reject its arguments, \<open>as_string\<close> serialises); and the SMTP server as \<open>smtplib\<close>
  shows it (\<open>SMTP_SSL(server, port)\<close>, \<open>login\<close>, \<open>sendmail\<close>, and the \<open>QUIT\<close> of
  \<open>__exit__\<close>). Each may raise.
\<close>

record world =
  int_of_str :: "pystr \<Rightarrow> exn + int"
  mime_text :: "pyval \<Rightarrow> pyval \<Rightarrow> pyval \<Rightarrow> exn + (pystr \<times> pystr)"
  header :: "pyval \<Rightarrow> pyval \<Rightarrow> exn option"
  as_string :: "message \<Rightarrow> exn + pystr"
  smtp_connect :: "pyval \<Rightarrow> int \<Rightarrow> exn option"
  smtp_login :: "pyval \<Rightarrow> pyval \<Rightarrow> exn option"
  smtp_sendmail :: "pyval \<Rightarrow> pystr list \<Rightarrow> pystr \<Rightarrow> exn option"
  smtp_exit :: "exn option"

definition try_then :: "exn + 'a \<Rightarrow> ('a \<Rightarrow> exn + 'b) \<Rightarrow> exn + 'b" where
  "try_then r f = (case r of Inl e \<Rightarrow> Inl e | Inr x \<Rightarrow> f x)"

text \<open>\<open>d[k]\<close> raises \<open>KeyError\<close> on a missing key.\<close>

definition dict_item :: "pydict \<Rightarrow> pystr \<Rightarrow> exn + pyval" where
  "dict_item d k = (case map_of d k of None \<Rightarrow> Inl (KeyError k) | Some v \<Rightarrow> Inr v)"

text \<open>\<open>int(v)\<close>.\<close>

definition py_int :: "world \<Rightarrow> pyval \<Rightarrow> exn + int" where
  "py_int w v =
     (case v of
        VInt i \<Rightarrow> Inr i
      | VBool b \<Rightarrow> Inr (if b then 1 else 0)
      | VStr s \<Rightarrow> int_of_str w s
      | VNone \<Rightarrow> Inl (TypeError
          (ascii ''int() argument must be a string, a bytes-like object or a real number, not ''
           @ quote # ascii ''NoneType'' @ [quote])))"

text \<open>\<open>v.split(',')\<close> exists on strings only.\<close>

definition no_attribute :: "pyval \<Rightarrow> string \<Rightarrow> exn" where
  "no_attribute v a =
     AttributeError (quote # type_name v @ quote # ascii '' object has no attribute ''
                     @ quote # ascii a @ [quote])"

section \<open>The handler \<open>_invoke\<close>\<close>

subsection \<open>The fixed texts of the source\<close>

definition no_accounts_text :: pystr where
  "no_accounts_text =
     [0x9519, 0x8BEF, 0xFF1A, 0x672A, 0x5728, 0x5DE5, 0x5177, 0x4E2D, 0x914D, 0x7F6E, 0x4EFB,
      0x4F55, 0x53D1, 0x4EF6, 0x4EBA, 0x8D26, 0x53F7, 0x3002, 0x8BF7, 0x524D, 0x5F80, 0x201C,
      0x5DE5, 0x5177, 0x201D, 0x9875, 0x9762, 0x8FDB, 0x884C, 0x914D, 0x7F6E, 0x3002]"

definition not_found_text :: "pyval \<Rightarrow> pystr" where
  "not_found_text selected_account_name =
     [0x9519, 0x8BEF, 0xFF1A, 0x627E, 0x4E0D, 0x5230, 0x540D, 0x4E3A, 0x20, 0x27]
     @ py_str selected_account_name
     @ [0x27, 0x20, 0x7684, 0x53D1, 0x4EF6, 0x8D26, 0x53F7, 0x914D, 0x7F6E, 0x3002]"

definition empty_to_text :: pystr where
  "empty_to_text =
     [0x9519, 0x8BEF, 0xFF1A, 0x6536, 0x4EF6, 0x4EBA, 0x90AE, 0x7BB1, 0x28]
     @ ascii ''to_emails''
     @ [0x29, 0x4E0D, 0x80FD, 0x4E3A, 0x7A7A, 0x3002]"

definition default_subject :: pystr where
  "default_subject =
     [0x6765, 0x81EA, 0x20] @ ascii ''Dify'' @ [0x20, 0x7684, 0x90AE, 0x4EF6, 0x901A, 0x77E5]"

definition send_failed_prefix :: pystr where
  "send_failed_prefix = [0x90AE, 0x4EF6, 0x53D1, 0x9001, 0x5931, 0x8D25, 0x3A, 0x20]"

definition success_result :: pydict where
  "success_result =
     [(ascii ''status'', VStr (ascii ''success'')), (ascii ''error_message'', VStr [])]"

definition error_result :: "exn \<Rightarrow> pydict" where
  "error_result e =
     [(ascii ''status'', VStr (ascii ''error'')),
      (ascii ''error_message'', VStr (send_failed_prefix @ exn_str e))]"

subsection \<open>Step 2: which account\<close>

text \<open>
  Lines 31 to 44. \<open>next((c for c in smtp_configs if ...), None)\<close> is \<open>find\<close>;
  \<open>not target_config\<close> holds for \<open>None\<close> and for an empty dict;
  \<open>smtp_configs[0]\<close> raises on an empty list.
\<close>

definition select_account :: "pydict list \<Rightarrow> pydict \<Rightarrow> pydict outcome" where
  "select_account smtp_configs tool_parameters =
     (let selected_account_name = dict_get tool_parameters (ascii ''sender_account'') in
      if truthy selected_account_name then
        (case find (\<lambda>c. py_eq (dict_get c (ascii ''name'')) selected_account_name)
                smtp_configs of
           None \<Rightarrow> Return (TextMessage (not_found_text selected_account_name))
         | Some c \<Rightarrow>
             if c = [] then Return (TextMessage (not_found_text selected_account_name))
             else Continue c)
      else
        (case find (\<lambda>c. truthy (dict_get_default c (ascii ''is_default'') (VBool False)))
                smtp_configs of
           Some c \<Rightarrow>
             if c = [] then
               (case smtp_configs of
                  [] \<Rightarrow> Raise (IndexError (ascii ''list index out of range''))
                | c0 # _ \<Rightarrow> Continue c0)
             else Continue c
         | None \<Rightarrow>
             (case smtp_configs of
                [] \<Rightarrow> Raise (IndexError (ascii ''list index out of range''))
              | c0 # _ \<Rightarrow> Continue c0)))"

subsection \<open>Step 3: the parameters\<close>

text \<open>
  \<open>[... for email in tool_parameters.get(k, '').split(',') if email.strip()]\<close>:
  a value that is not a string has no \<open>split\<close>.
\<close>

definition get_emails :: "pydict \<Rightarrow> pystr \<Rightarrow> exn + pystr list" where
  "get_emails tool_parameters k =
     (case dict_get_default tool_parameters k (VStr []) of
        VStr s \<Rightarrow> Inr (parse_emails s)
      | v \<Rightarrow> Inl (no_attribute v ''split''))"

subsection \<open>Step 4: compose and send\<close>

text \<open>Lines 61 to 65: the fields of the chosen account.\<close>

definition extract_fields ::
  "world \<Rightarrow> pydict \<Rightarrow> exn + (pyval \<times> int \<times> pyval \<times> pyval \<times> pyval)" where
  "extract_fields w target_config =
     try_then (dict_item target_config (ascii ''server'')) (\<lambda>smtp_server.
     try_then (dict_item target_config (ascii ''port'')) (\<lambda>port.
     try_then (py_int w port) (\<lambda>smtp_port.
     try_then (dict_item target_config (ascii ''user'')) (\<lambda>smtp_user.
     try_then (dict_item target_config (ascii ''password'')) (\<lambda>smtp_password.
     try_then (dict_item target_config (ascii ''sender_name'')) (\<lambda>sender_name.
     Inr (smtp_server, smtp_port, smtp_user, smtp_password, sender_name)))))))"

text \<open>\<open>message[name] = Header(text, encoding)\<close> appends to the header list.\<close>

definition set_header :: "world \<Rightarrow> message \<Rightarrow> pystr \<Rightarrow> pyval \<Rightarrow> pyval \<Rightarrow> exn + message" where
  "set_header w m name text encoding =
     (case header w text encoding of
        Some e \<Rightarrow> Inl e
      | None \<Rightarrow> Inr (m\<lparr>headers := headers m @ [(name, HHeader text encoding)]\<rparr>))"

text \<open>Lines 68 to 73.\<close>

definition compose ::
  "world \<Rightarrow> pyval \<Rightarrow> pyval \<Rightarrow> pyval \<Rightarrow> pyval \<Rightarrow> pyval \<Rightarrow> pystr list \<Rightarrow> pystr list \<Rightarrow> pyval
     \<Rightarrow> exn + message" where
  "compose w body mail_type encoding sender_name smtp_user to_emails cc_emails subject =
     try_then (mime_text w body mail_type encoding) (\<lambda>(ctype, cte).
     try_then (set_header w
        \<lparr>payload = body, subtype = mail_type, charset = encoding,
         headers = [(ascii ''Content-Type'', HStr ctype),
                    (ascii ''MIME-Version'', HStr (ascii ''1.0'')),
                    (ascii ''Content-Transfer-Encoding'', HStr cte)]\<rparr>
        (ascii ''From'')
        (VStr (py_str sender_name @ ascii '' <'' @ py_str smtp_user @ ascii ''>''))
        encoding) (\<lambda>m1.
     try_then (set_header w m1 (ascii ''To'') (VStr (str_join (ascii '', '') to_emails))
        encoding) (\<lambda>m2.
     try_then (if cc_emails \<noteq> []
               then set_header w m2 (ascii ''Cc'') (VStr (str_join (ascii '', '') cc_emails))
                      encoding
               else Inr m2) (\<lambda>m3.
     set_header w m3 (ascii ''Subject'') subject encoding))))"

text \<open>
  \<open>with smtplib.SMTP_SSL(server, port, timeout=10) as server: body\<close>. When the
  constructor raises, the block is not entered. Otherwise \<open>__exit__\<close> runs after the
  body, whether the body raised or not, and an exception of \<open>__exit__\<close> replaces the
  body's.
\<close>

definition with_smtp_ssl ::
  "world \<Rightarrow> pyval \<Rightarrow> int \<Rightarrow> exn option \<times> event list \<Rightarrow> exn option \<times> event list" where
  "with_smtp_ssl w server port body =
     (case smtp_connect w server port of
        Some e \<Rightarrow> (Some e, [Connect server port])
      | None \<Rightarrow>
          ((case smtp_exit w of Some e' \<Rightarrow> Some e' | None \<Rightarrow> fst body),
           Connect server port # snd body @ [Release]))"

text \<open>
  Lines 77 and 78, the body of the \<open>with\<close>: \<open>message.as_string()\<close> is evaluated
  before \<open>sendmail\<close> is called.
\<close>

definition login_and_send ::
  "world \<Rightarrow> pyval \<Rightarrow> pyval \<Rightarrow> pystr list \<Rightarrow> message \<Rightarrow> exn option \<times> event list" where
  "login_and_send w smtp_user smtp_password recipients m =
     (case smtp_login w smtp_user smtp_password of
        Some e \<Rightarrow> (Some e, [Login smtp_user smtp_password])
      | None \<Rightarrow>
          (case as_string w m of
             Inl e \<Rightarrow> (Some e, [Login smtp_user smtp_password])
           | Inr text \<Rightarrow>
               (smtp_sendmail w smtp_user recipients text,
                [Login smtp_user smtp_password, Sendmail smtp_user recipients text])))"

text \<open>Lines 59 to 78, the body of the \<open>try\<close>: the exception it ends with, if any.\<close>

definition try_body ::
  "world \<Rightarrow> pydict \<Rightarrow> pyval \<Rightarrow> pyval \<Rightarrow> pyval \<Rightarrow> pyval \<Rightarrow> pystr list \<Rightarrow> pystr list
     \<Rightarrow> pystr list \<Rightarrow> exn option \<times> event list" where
  "try_body w target_config subject body mail_type encoding to_emails cc_emails bcc_emails =
     (case extract_fields w target_config of
        Inl e \<Rightarrow> (Some e, [])
      | Inr (smtp_server, smtp_port, smtp_user, smtp_password, sender_name) \<Rightarrow>
          (case compose w body mail_type encoding sender_name smtp_user to_emails cc_emails
                  subject of
             Inl e \<Rightarrow> (Some e, [])
           | Inr m \<Rightarrow>
               with_smtp_ssl w smtp_server smtp_port
                 (login_and_send w smtp_user smtp_password
                    (to_emails @ cc_emails @ bcc_emails) m)))"

text \<open>
  The handler. \<open>smtp_accounts\<close> is what the credentials hold under
  \<open>'smtp_accounts'\<close>, if anything. The result is the exception that leaves the handler
  or the message it returns, with what was asked of the transport.
\<close>

definition invoke ::
  "world \<Rightarrow> pydict list option \<Rightarrow> pydict \<Rightarrow> (exn + tool_msg) \<times> event list" where
  "invoke w smtp_accounts tool_parameters =
     (let smtp_configs = (case smtp_accounts of None \<Rightarrow> [] | Some cs \<Rightarrow> cs) in
      if smtp_configs = [] then (Inr (TextMessage no_accounts_text), [])
      else
        (case select_account smtp_configs tool_parameters of
           Raise e \<Rightarrow> (Inl e, [])
         | Return msg \<Rightarrow> (Inr msg, [])
         | Continue target_config \<Rightarrow>
             (case get_emails tool_parameters (ascii ''to_emails'') of
                Inl e \<Rightarrow> (Inl e, [])
              | Inr to_emails \<Rightarrow>
                  if to_emails = [] then (Inr (TextMessage empty_to_text), [])
                  else
                    (let subject = dict_get_default tool_parameters (ascii ''subject'')
                                     (VStr default_subject);
                         body = dict_get_default tool_parameters (ascii ''body'') (VStr []);
                         mail_type = dict_get_default tool_parameters (ascii ''mail_type'')
                                       (VStr (ascii ''html''));
                         encoding = dict_get_default tool_parameters (ascii ''encoding'')
                                      (VStr (ascii ''utf-8''))
                     in
                       (case get_emails tool_parameters (ascii ''cc_emails'') of
                          Inl e \<Rightarrow> (Inl e, [])
                        | Inr cc_emails \<Rightarrow>
                            (case get_emails tool_parameters (ascii ''bcc_emails'') of
                               Inl e \<Rightarrow> (Inl e, [])
                             | Inr bcc_emails \<Rightarrow>
                                 (case try_body w target_config subject body mail_type
                                         encoding to_emails cc_emails bcc_emails of
                                    (None, tr) \<Rightarrow> (Inr (JsonMessage success_result), tr)
                                  | (Some e, tr) \<Rightarrow>
                                      (Inr (JsonMessage (error_result e)), tr))))))))"

section \<open>The connection test\<close>

text \<open>\<open>test_connection\<close>: the dict it returns, with what was asked of the transport.\<close>

definition test_connection :: "world \<Rightarrow> pydict \<Rightarrow> pydict \<times> event list" where
  "test_connection w credentials =
     (let server = dict_get credentials (ascii ''server'') in
      case py_int w (dict_get credentials (ascii ''port'')) of
        Inl e \<Rightarrow>
          ([(ascii ''status'', VStr (ascii ''error'')),
            (ascii ''message'', VStr (exn_str e))], [])
      | Inr port \<Rightarrow>
          (let user = dict_get credentials (ascii ''user'');
               password = dict_get credentials (ascii ''password'')
           in case with_smtp_ssl w server port
                     (smtp_login w user password, [Login user password]) of
                (None, tr) \<Rightarrow> ([(ascii ''status'', VStr (ascii ''success''))], tr)
              | (Some e, tr) \<Rightarrow>
                  ([(ascii ''status'', VStr (ascii ''error'')),
                    (ascii ''message'', VStr (exn_str e))], tr)))"

section \<open>Observers and example inputs\<close>

text \<open>The \<open>status\<close> field of a JSON result; a text message has none.\<close>

definition status_of :: "tool_msg \<Rightarrow> pyval option" where
  "status_of msg =
     (case msg of TextMessage _ \<Rightarrow> None | JsonMessage d \<Rightarrow> map_of d (ascii ''status''))"

text \<open>The same for what the handler ends with; an escaping exception has none.\<close>

definition result_status :: "exn + tool_msg \<Rightarrow> pyval option" where
  "result_status r = (case r of Inl _ \<Rightarrow> None | Inr msg \<Rightarrow> status_of msg)"

text \<open>The exception that leaves a \<open>with\<close> block whose body raised \<open>e\<close>.\<close>

definition leaving :: "world \<Rightarrow> exn \<Rightarrow> exn" where
  "leaving w e = (case smtp_exit w of Some e' \<Rightarrow> e' | None \<Rightarrow> e)"

text \<open>
  A world in which everything works (\<open>as_string\<close> lists the header names, one per
  line), one whose server rejects the login, and two accounts, the second the default.
\<close>

definition example_world :: world where
  "example_world =
     \<lparr>int_of_str = (\<lambda>s. if s = ascii ''465'' then Inr 465
                          else Inl (ValueError (ascii ''invalid literal for int()''))),
      mime_text = (\<lambda>body mail_type encoding. Inr (ascii ''text/html'', ascii ''base64'')),
      header = (\<lambda>text encoding. None),
      as_string = (\<lambda>m. Inr (str_join [0x0A] (map fst (headers m)))),
      smtp_connect = (\<lambda>server port. None),
      smtp_login = (\<lambda>user password. None),
      smtp_sendmail = (\<lambda>sender recipients text. None),
      smtp_exit = None\<rparr>"

definition rejecting_world :: world where
  "rejecting_world =
     example_world\<lparr>smtp_login :=
       (\<lambda>user password. Some (OtherError (ascii ''535 authentication failed'')))\<rparr>"

text \<open>The same rejecting server, where the \<open>QUIT\<close> of the release fails as well.\<close>

definition faulty_release_world :: world where
  "faulty_release_world =
     rejecting_world\<lparr>smtp_exit := Some (OtherError (ascii ''500 oops''))\<rparr>"

definition account_a :: pydict where
  "account_a =
     [(ascii ''name'', VStr (ascii ''a'')), (ascii ''is_default'', VBool False),
      (ascii ''server'', VStr (ascii ''smtp.a.com'')), (ascii ''port'', VInt 465),
      (ascii ''user'', VStr (ascii ''a@a.com'')), (ascii ''password'', VStr (ascii ''pa'')),
      (ascii ''sender_name'', VStr (ascii ''A''))]"

definition account_b :: pydict where
  "account_b =
     [(ascii ''name'', VStr (ascii ''b'')), (ascii ''is_default'', VBool True),
      (ascii ''server'', VStr (ascii ''smtp.b.com'')), (ascii ''port'', VStr (ascii ''465'')),
      (ascii ''user'', VStr (ascii ''b@b.com'')), (ascii ''password'', VStr (ascii ''pb'')),
      (ascii ''sender_name'', VStr (ascii ''B''))]"

section \<open>Properties of the recipient parsing\<close>

lemma str_split_nonempty: "str_split s sep \<noteq> []"
  by (induction s) (auto split: list.splits)

lemma str_split_no_sep: "seg \<in> set (str_split s sep) \<Longrightarrow> sep \<notin> set seg"
proof (induction s arbitrary: seg)
  case Nil then show ?case by simp
next
  case (Cons c cs)
  obtain h t where ht: "str_split cs sep = h # t"
    using str_split_nonempty [of cs sep] by (cases "str_split cs sep") auto
  show ?case
  proof (cases "c = sep")
    case True with Cons show ?thesis by auto
  next
    case False
    with Cons.prems ht have "seg = c # h \<or> seg \<in> set t" by auto
    with Cons.IH ht False show ?thesis by auto
  qed
qed

lemma str_join_Cons: "str_join sep (x # xs) = (if xs = [] then x else x @ sep @ str_join sep xs)"
  by (cases xs) auto

lemma str_join_split: "str_join [sep] (str_split s sep) = s"
proof (induction s)
  case Nil show ?case by simp
next
  case (Cons c cs)
  obtain h t where ht: "str_split cs sep = h # t"
    using str_split_nonempty [of cs sep] by (cases "str_split cs sep") auto
  with Cons show ?case by (auto simp: str_join_Cons)
qed

lemma str_split_append:
  "sep \<notin> set x \<Longrightarrow> str_split (x @ sep # r) sep = x # str_split r sep"
  by (induction x) auto

lemma str_split_free: "sep \<notin> set x \<Longrightarrow> str_split x sep = [x]"
  by (induction x) auto

lemma str_split_join_pre:
  "sep \<notin> set p \<Longrightarrow> \<forall>x\<in>set xs. sep \<notin> set x \<Longrightarrow> sep \<notin> set w \<Longrightarrow> xs \<noteq> [] \<Longrightarrow>
   str_split (p @ str_join (sep # w) xs) sep = (p @ hd xs) # map (\<lambda>y. w @ y) (tl xs)"
proof (induction xs arbitrary: p)
  case Nil then show ?case by simp
next
  case (Cons x xs)
  show ?case
  proof (cases "xs = []")
    case True with Cons.prems show ?thesis by (simp add: str_split_free)
  next
    case False
    have "str_split (p @ str_join (sep # w) (x # xs)) sep
        = str_split ((p @ x) @ sep # (w @ str_join (sep # w) xs)) sep"
      using False by (simp add: str_join_Cons)
    also have "\<dots> = (p @ x) # str_split (w @ str_join (sep # w) xs) sep"
      using Cons.prems by (intro str_split_append) simp
    also have "str_split (w @ str_join (sep # w) xs) sep = (w @ hd xs) # map (\<lambda>y. w @ y) (tl xs)"
      using Cons.prems False by (intro Cons.IH) auto
    finally show ?thesis using False by (cases xs) auto
  qed
qed

lemma str_split_join:
  "\<forall>x\<in>set xs. sep \<notin> set x \<Longrightarrow> sep \<notin> set w \<Longrightarrow> xs \<noteq> [] \<Longrightarrow>
   str_split (str_join (sep # w) xs) sep = hd xs # map (\<lambda>y. w @ y) (tl xs)"
  using str_split_join_pre [of sep "[]" xs w] by simp

lemma strip_decomp:
  "\<exists>a b. e = a @ str_strip e @ b \<and> (\<forall>c\<in>set a. isspace c) \<and> (\<forall>c\<in>set b. isspace c)"
proof -
  let ?a = "takeWhile isspace e"
  let ?m = "dropWhile isspace e"
  let ?b = "rev (takeWhile isspace (rev ?m))"
  have "rev ?m = takeWhile isspace (rev ?m) @ dropWhile isspace (rev ?m)" by simp
  then have "?m = str_strip e @ ?b" unfolding str_strip_def
    by (metis rev_append rev_rev_ident)
  then have "e = ?a @ str_strip e @ ?b" by (metis takeWhile_dropWhile_id)
  moreover have "\<forall>c\<in>set ?a. isspace c" by (auto dest: set_takeWhileD)
  moreover have "\<forall>c\<in>set ?b. isspace c" by (auto dest: set_takeWhileD)
  ultimately show ?thesis by blast
qed

lemma strip_ends:
  "str_strip e \<noteq> [] \<Longrightarrow> \<not> isspace (hd (str_strip e)) \<and> \<not> isspace (last (str_strip e))"
proof -
  assume ne: "str_strip e \<noteq> []"
  let ?m = "dropWhile isspace e"
  let ?r = "dropWhile isspace (rev ?m)"
  have s: "str_strip e = rev ?r" by (simp add: str_strip_def)
  with ne have rne: "?r \<noteq> []" by simp
  then have h: "\<not> isspace (hd ?r)" by (rule hd_dropWhile)
  have l: "last (str_strip e) = hd ?r" using rne by (simp add: s last_rev)
  have mne: "?m \<noteq> []" using rne by (cases ?m) auto
  then have hm: "\<not> isspace (hd ?m)" by (rule hd_dropWhile)
  have "rev ?m = takeWhile isspace (rev ?m) @ ?r" by simp
  then have "?m = rev ?r @ rev (takeWhile isspace (rev ?m))" by (metis rev_append rev_rev_ident)
  then have "hd ?m = hd (rev ?r)" using rne by (metis hd_append2 rev_is_Nil_conv)
  with hm h l s show ?thesis by simp
qed

lemma dropWhile_self: "xs \<noteq> [] \<Longrightarrow> \<not> P (hd xs) \<Longrightarrow> dropWhile P xs = xs"
  by (cases xs) auto

lemma strip_fix:
  "x \<noteq> [] \<Longrightarrow> \<not> isspace (hd x) \<Longrightarrow> \<not> isspace (last x) \<Longrightarrow> str_strip x = x"
  by (simp add: str_strip_def dropWhile_self hd_rev)

lemma strip_ws_prefix:
  "\<forall>c\<in>set w. isspace c \<Longrightarrow> str_strip (w @ x) = str_strip x"
  by (simp add: str_strip_def dropWhile_append)

lemma parse_refines: "parse_emails s = parse_spec s"
  by (simp add: parse_emails_def parse_spec_def filter_map comp_def)


lemma str_split_sep_append:
  "str_split (a @ sep # b) sep = str_split a sep @ str_split b sep"
proof (induction a)
  case Nil show ?case by simp
next
  case (Cons c cs)
  obtain h t where ht: "str_split cs sep = h # t"
    using str_split_nonempty [of cs sep] by (cases "str_split cs sep") auto
  with Cons show ?case by simp
qed

lemma set_strip_subset: "set (str_strip e) \<subseteq> set e"
proof -
  have "set (str_strip e) \<subseteq> set (dropWhile isspace e)"
    unfolding str_strip_def using set_dropWhileD by fastforce
  also have "\<dots> \<subseteq> set e" using set_dropWhileD by fastforce
  finally show ?thesis .
qed

lemma parse_emails_elem:
  assumes "x \<in> set (parse_emails s)"
  shows "x \<noteq> [] \<and> comma \<notin> set x \<and> \<not> isspace (hd x) \<and> \<not> isspace (last x)"
proof -
  from assms obtain seg where seg: "seg \<in> set (str_split s comma)"
    and x: "x = str_strip seg" and ne: "str_strip seg \<noteq> []"
    by (auto simp: parse_emails_def)
  have "comma \<notin> set seg" using seg by (rule str_split_no_sep)
  then have "comma \<notin> set x" using set_strip_subset [of seg] x by auto
  with strip_ends [OF ne] ne x show ?thesis by simp
qed

lemma parse_emails_join:
  assumes el: "\<forall>x\<in>set xs. x \<noteq> [] \<and> comma \<notin> set x \<and> \<not> isspace (hd x) \<and> \<not> isspace (last x)"
    and w: "\<forall>c\<in>set w. isspace c"
  shows "parse_emails (str_join (comma # w) xs) = xs"
proof (cases "xs = []")
  case True
  then show ?thesis by (simp add: parse_emails_def str_strip_def)
next
  case False
  have cw: "comma \<notin> set w" using w by (auto simp: isspace_def comma_def)
  have sfix: "str_strip x = x" if "x \<in> set xs" for x
    using el that by (simp add: strip_fix)
  have fixw: "str_strip (w @ x) = x" if "x \<in> set xs" for x
    using sfix [OF that] w by (simp add: strip_ws_prefix)
  have sp: "str_split (str_join (comma # w) xs) comma = hd xs # map (\<lambda>y. w @ y) (tl xs)"
    using el cw False by (intro str_split_join) auto
  obtain x r where xr: "xs = x # r" using False by (cases xs) auto
  have m: "map str_strip (hd xs # map (\<lambda>y. w @ y) (tl xs)) = xs"
    using sfix fixw unfolding xr by (simp add: map_idI)
  have ne: "\<forall>e\<in>set (map str_strip (hd xs # map (\<lambda>y. w @ y) (tl xs))). e \<noteq> []"
    unfolding m using el by simp
  have "parse_emails (str_join (comma # w) xs)
      = filter (\<lambda>e. e \<noteq> []) (map str_strip (hd xs # map (\<lambda>y. w @ y) (tl xs)))"
    by (simp only: parse_emails_def sp filter_map comp_def)
  also have "\<dots> = map str_strip (hd xs # map (\<lambda>y. w @ y) (tl xs))"
    using ne by (simp only: filter_id_conv)
  finally show ?thesis using m by simp
qed

lemma parse_example:
  "parse_emails (ascii '' x@a.com , y@b.com ,, '') = [ascii ''x@a.com'', ascii ''y@b.com'']"
  by (simp add: parse_emails_def ascii_def str_strip_def isspace_def comma_def)

text \<open>
  Claim C7. Parsing the recipients again after joining them with a comma gives the same
  list, for every input string; so it does after joining them with \<open>", "\<close>, the
  separator the handler itself uses for the \<open>To\<close> header. The example of the
  specification parses to its two addresses, and these parse to themselves again.
\<close>

theorem parse_emails_idempotent:
  "parse_emails (str_join [comma] (parse_emails s)) = parse_emails s \<and>
   parse_emails (str_join (ascii '', '') (parse_emails s)) = parse_emails s \<and>
   parse_emails (ascii '' x@a.com , y@b.com ,, '') = [ascii ''x@a.com'', ascii ''y@b.com''] \<and>
   parse_emails (str_join [comma] [ascii ''x@a.com'', ascii ''y@b.com''])
     = [ascii ''x@a.com'', ascii ''y@b.com'']"
proof -
  have el: "\<forall>x\<in>set (parse_emails s).
      x \<noteq> [] \<and> comma \<notin> set x \<and> \<not> isspace (hd x) \<and> \<not> isspace (last x)"
    using parse_emails_elem by blast
  have a: "parse_emails (str_join (comma # []) (parse_emails s)) = parse_emails s"
    using parse_emails_join [OF el, of "[]"] by simp
  have cs: "ascii '', '' = comma # [0x20]" by (simp add: ascii_def comma_def)
  have b: "parse_emails (str_join (comma # [0x20]) (parse_emails s)) = parse_emails s"
    using parse_emails_join [OF el, of "[0x20]"] by (simp add: isspace_def)
  have c: "parse_emails (str_join [comma] [ascii ''x@a.com'', ascii ''y@b.com''])
     = [ascii ''x@a.com'', ascii ''y@b.com'']"
    by (simp add: parse_emails_def ascii_def str_strip_def isspace_def comma_def)
  from a b c cs parse_example show ?thesis by simp
qed

text \<open>
  Claim C6. The comprehension of the source is the parsing the specification describes
  (split on the comma, trim each element, drop the empty ones). The split is exact:
  joining the segments with commas gives the string back and no segment holds a comma.
  The trimming removes whitespace only, from both ends, and leaves none at either end.
  Order is kept and nothing is deduplicated: parsing two strings joined by a comma is
  parsing each and concatenating. The handler parses each of its three recipient
  parameters, when it is a string, in this way.
\<close>

theorem parse_emails_spec:
  "parse_emails s = parse_spec s \<and>
   str_join [comma] (str_split s comma) = s \<and>
   (\<forall>seg\<in>set (str_split s comma).
      comma \<notin> set seg \<and>
      (\<exists>a b. seg = a @ str_strip seg @ b \<and> (\<forall>c\<in>set a. isspace c) \<and> (\<forall>c\<in>set b. isspace c)) \<and>
      (str_strip seg \<noteq> [] \<longrightarrow>
         \<not> isspace (hd (str_strip seg)) \<and> \<not> isspace (last (str_strip seg)))) \<and>
   parse_emails (s @ comma # t) = parse_emails s @ parse_emails t \<and>
   (\<forall>tool_parameters k.
      dict_get_default tool_parameters k (VStr []) = VStr s \<longrightarrow>
      get_emails tool_parameters k = Inr (parse_emails s))"
proof -
  have 1: "parse_emails s = parse_spec s" by (rule parse_refines)
  have 2: "str_join [comma] (str_split s comma) = s" by (rule str_join_split)
  have 3: "\<forall>seg\<in>set (str_split s comma).
      comma \<notin> set seg \<and>
      (\<exists>a b. seg = a @ str_strip seg @ b \<and> (\<forall>c\<in>set a. isspace c) \<and> (\<forall>c\<in>set b. isspace c)) \<and>
      (str_strip seg \<noteq> [] \<longrightarrow>
         \<not> isspace (hd (str_strip seg)) \<and> \<not> isspace (last (str_strip seg)))"
    using str_split_no_sep strip_decomp strip_ends by blast
  have 4: "parse_emails (s @ comma # t) = parse_emails s @ parse_emails t"
    by (simp add: parse_emails_def str_split_sep_append)
  have 5: "\<forall>tool_parameters k.
      dict_get_default tool_parameters k (VStr []) = VStr s \<longrightarrow>
      get_emails tool_parameters k = Inr (parse_emails s)"
    by (simp add: get_emails_def)
  from 1 2 3 4 5 show ?thesis by blast
qed

theorem parse_emails_spec_witness:
  "parse_emails (ascii ''b@y.org , ,a@x.org,b@y.org'')
     = [ascii ''b@y.org'', ascii ''a@x.org'', ascii ''b@y.org''] \<and>
   parse_spec (ascii ''b@y.org , ,a@x.org,b@y.org'')
     = [ascii ''b@y.org'', ascii ''a@x.org'', ascii ''b@y.org''] \<and>
   str_split (ascii ''b@y.org , ,a@x.org,b@y.org'') comma
     = [ascii ''b@y.org '', ascii '' '', ascii ''a@x.org'', ascii ''b@y.org''] \<and>
   str_join [comma] [ascii ''b@y.org '', ascii '' '', ascii ''a@x.org'', ascii ''b@y.org'']
     = ascii ''b@y.org , ,a@x.org,b@y.org''"
proof -
  have e: "parse_emails (ascii ''b@y.org , ,a@x.org,b@y.org'')
     = [ascii ''b@y.org'', ascii ''a@x.org'', ascii ''b@y.org'']"
    by (simp add: parse_emails_def ascii_def str_strip_def isspace_def comma_def)
  have sp: "str_split (ascii ''b@y.org , ,a@x.org,b@y.org'') comma
     = [ascii ''b@y.org '', ascii '' '', ascii ''a@x.org'', ascii ''b@y.org'']"
    by (simp add: ascii_def comma_def)
  show ?thesis
    using parse_emails_spec [of "ascii ''b@y.org , ,a@x.org,b@y.org''" "[]"] e sp
    by (simp del: str_split.simps)
qed

section \<open>Properties of the account selection\<close>

lemma find_first:
  "P c \<Longrightarrow> \<forall>x\<in>set pre. \<not> P x \<Longrightarrow> find P (pre @ c # post) = Some c"
  by (induction pre) auto

lemma find_none: "\<forall>x\<in>set xs. \<not> P x \<Longrightarrow> find P xs = None"
  by (induction xs) auto

lemma py_eq_name:
  "py_eq (dict_get c k) (VStr n) \<longleftrightarrow> map_of c k = Some (VStr n)"
proof (cases "map_of c k")
  case None then show ?thesis by (simp add: dict_get_def)
next
  case (Some v) then show ?thesis by (cases v) (auto simp: dict_get_def)
qed

lemma truthy_default_nonempty:
  "truthy (dict_get_default c k (VBool False)) \<Longrightarrow> c \<noteq> []"
  by (auto simp: dict_get_default_def)

lemma select_named_found:
  assumes "dict_get tp (ascii ''sender_account'') = VStr n" "n \<noteq> []"
    and "map_of c (ascii ''name'') = Some (VStr n)"
    and "\<forall>c'\<in>set pre. map_of c' (ascii ''name'') \<noteq> Some (VStr n)"
  shows "select_account (pre @ c # post) tp = Continue c"
proof -
  have f: "find (\<lambda>c. py_eq (dict_get c (ascii ''name'')) (VStr n)) (pre @ c # post) = Some c"
    using assms(3,4) by (intro find_first) (simp_all add: py_eq_name)
  have "c \<noteq> []" using assms(3) by auto
  with f assms(1,2) show ?thesis by (simp add: select_account_def)
qed

lemma select_named_missing:
  assumes "dict_get tp (ascii ''sender_account'') = VStr n" "n \<noteq> []"
    and "\<forall>c\<in>set cs. map_of c (ascii ''name'') \<noteq> Some (VStr n)"
  shows "select_account cs tp = Return (TextMessage (not_found_text (VStr n)))"
proof -
  have "find (\<lambda>c. py_eq (dict_get c (ascii ''name'')) (VStr n)) cs = None"
    using assms(3) by (intro find_none) (simp add: py_eq_name)
  with assms(1,2) show ?thesis by (simp add: select_account_def)
qed

lemma select_default_found:
  assumes "\<not> truthy (dict_get tp (ascii ''sender_account''))"
    and "truthy (dict_get_default c (ascii ''is_default'') (VBool False))"
    and "\<forall>c'\<in>set pre. \<not> truthy (dict_get_default c' (ascii ''is_default'') (VBool False))"
  shows "select_account (pre @ c # post) tp = Continue c"
proof -
  have f: "find (\<lambda>c. truthy (dict_get_default c (ascii ''is_default'') (VBool False)))
             (pre @ c # post) = Some c"
    using assms(2,3) by (intro find_first) simp_all
  have "c \<noteq> []" using assms(2) by (rule truthy_default_nonempty)
  with f assms(1) show ?thesis by (simp add: select_account_def)
qed

lemma select_default_fallback:
  assumes "\<not> truthy (dict_get tp (ascii ''sender_account''))"
    and "\<forall>c\<in>set (c0 # cs). \<not> truthy (dict_get_default c (ascii ''is_default'') (VBool False))"
  shows "select_account (c0 # cs) tp = Continue c0"
proof -
  have "find (\<lambda>c. truthy (dict_get_default c (ascii ''is_default'') (VBool False))) (c0 # cs)
          = None"
    using assms(2) by (intro find_none) simp
  with assms(1) show ?thesis by (simp add: select_account_def)
qed

lemma invoke_selected:
  assumes "cs \<noteq> []" "select_account cs tp = Continue c" "select_account [c] tp = Continue c"
  shows "invoke w (Some cs) tp = invoke w (Some [c]) tp"
  using assms by (simp add: invoke_def)

lemma split_first:
  "\<exists>x\<in>set xs. P x \<Longrightarrow> \<exists>pre c post. xs = pre @ c # post \<and> P c \<and> (\<forall>x\<in>set pre. \<not> P x)"
  using split_list_first_prop [of xs P] by blast

section \<open>Properties of the handler\<close>

text \<open>
  Claim C8. When the credentials hold no account list, or an empty one, the handler
  returns the fixed text message about missing accounts and asks nothing of the
  transport. The result is the same for every parameter map and every world, also for
  parameters whose parsing would raise, so nothing is parsed before the return.
\<close>

theorem invoke_no_accounts:
  "smtp_accounts = None \<or> smtp_accounts = Some [] \<Longrightarrow>
   invoke w smtp_accounts tool_parameters = (Inr (TextMessage no_accounts_text), [])"
  by (auto simp: invoke_def)

theorem invoke_no_accounts_witness:
  "invoke rejecting_world (Some []) [(ascii ''to_emails'', VNone)]
     = (Inr (TextMessage no_accounts_text), []) \<and>
   invoke example_world None [(ascii ''to_emails'', VStr (ascii ''t@x.com''))]
     = (Inr (TextMessage no_accounts_text), [])"
  using invoke_no_accounts [of "Some []" rejecting_world "[(ascii ''to_emails'', VNone)]"]
    invoke_no_accounts [of None example_world "[(ascii ''to_emails'', VStr (ascii ''t@x.com''))]"]
  by simp

text \<open>
  Claim C2. The account list is not empty and a non-empty account name \<open>n\<close> is
  requested. If the list splits into accounts not named \<open>n\<close>, then an account \<open>c\<close>
  whose name is exactly \<open>n\<close>, then the rest, the selection continues with \<open>c\<close> (the
  first match in list order), and the handler behaves as if \<open>c\<close> were the only account.
  If no account is named \<open>n\<close>, the handler returns the not-found text message, which
  contains \<open>n\<close>, and asks nothing of the transport, so no message is sent.
\<close>

theorem select_account_by_name:
  assumes "smtp_configs \<noteq> []"
    and "dict_get tool_parameters (ascii ''sender_account'') = VStr n"
    and "n \<noteq> []"
  shows
    "(\<forall>pre c post.
        smtp_configs = pre @ c # post \<and> map_of c (ascii ''name'') = Some (VStr n) \<and>
        (\<forall>c'\<in>set pre. map_of c' (ascii ''name'') \<noteq> Some (VStr n)) \<longrightarrow>
        select_account smtp_configs tool_parameters = Continue c \<and>
        invoke w (Some smtp_configs) tool_parameters = invoke w (Some [c]) tool_parameters) \<and>
     ((\<forall>c\<in>set smtp_configs. map_of c (ascii ''name'') \<noteq> Some (VStr n)) \<longrightarrow>
        select_account smtp_configs tool_parameters
          = Return (TextMessage (not_found_text (VStr n))) \<and>
        invoke w (Some smtp_configs) tool_parameters
          = (Inr (TextMessage (not_found_text (VStr n))), [])) \<and>
     (\<exists>p q. not_found_text (VStr n) = p @ n @ q)"
proof (intro conjI allI impI)
  fix pre c post
  assume h: "smtp_configs = pre @ c # post \<and> map_of c (ascii ''name'') = Some (VStr n) \<and>
        (\<forall>c'\<in>set pre. map_of c' (ascii ''name'') \<noteq> Some (VStr n))"
  then show s: "select_account smtp_configs tool_parameters = Continue c"
    using select_named_found [OF assms(2,3), of c pre post] by simp
  have "select_account [c] tool_parameters = Continue c"
    using select_named_found [OF assms(2,3), of c "[]" "[]"] h by simp
  with assms(1) s show "invoke w (Some smtp_configs) tool_parameters
      = invoke w (Some [c]) tool_parameters"
    by (rule invoke_selected)
next
  assume h: "\<forall>c\<in>set smtp_configs. map_of c (ascii ''name'') \<noteq> Some (VStr n)"
  then show s: "select_account smtp_configs tool_parameters
      = Return (TextMessage (not_found_text (VStr n)))"
    using select_named_missing [OF assms(2,3)] by simp
  with assms(1) show "invoke w (Some smtp_configs) tool_parameters
      = (Inr (TextMessage (not_found_text (VStr n))), [])"
    by (simp add: invoke_def)
next
  show "\<exists>p q. not_found_text (VStr n) = p @ n @ q"
    unfolding not_found_text_def py_str.simps by blast
qed

theorem select_account_by_name_witness:
  "select_account [account_a, account_b] [(ascii ''sender_account'', VStr (ascii ''b''))]
     = Continue account_b \<and>
   invoke example_world (Some [account_a, account_b])
       [(ascii ''sender_account'', VStr (ascii ''z''))]
     = (Inr (TextMessage (not_found_text (VStr (ascii ''z'')))), [])"
proof -
  have ne: "[account_a, account_b] \<noteq> []" by simp
  have pb: "dict_get [(ascii ''sender_account'', VStr (ascii ''b''))] (ascii ''sender_account'')
      = VStr (ascii ''b'')" by (simp add: dict_get_def)
  have pz: "dict_get [(ascii ''sender_account'', VStr (ascii ''z''))] (ascii ''sender_account'')
      = VStr (ascii ''z'')" by (simp add: dict_get_def)
  have nb: "ascii ''b'' \<noteq> []" and nz: "ascii ''z'' \<noteq> []" by (simp_all add: ascii_def)
  have fb: "map_of account_b (ascii ''name'') = Some (VStr (ascii ''b''))"
    by (simp add: account_b_def ascii_def)
  have fa: "\<forall>c'\<in>set [account_a]. map_of c' (ascii ''name'') \<noteq> Some (VStr (ascii ''b''))"
    by (simp add: account_a_def ascii_def)
  have fz: "\<forall>c\<in>set [account_a, account_b]. map_of c (ascii ''name'') \<noteq> Some (VStr (ascii ''z''))"
    by (simp add: account_a_def account_b_def ascii_def)
  have 1: "select_account [account_a, account_b] [(ascii ''sender_account'', VStr (ascii ''b''))]
     = Continue account_b"
    using select_account_by_name [OF ne pb nb, of example_world, THEN conjunct1, rule_format,
        of "[account_a]" account_b "[]"] fb fa by simp
  have 2: "invoke example_world (Some [account_a, account_b])
       [(ascii ''sender_account'', VStr (ascii ''z''))]
     = (Inr (TextMessage (not_found_text (VStr (ascii ''z'')))), [])"
    using select_account_by_name [OF ne pz nz, of example_world, THEN conjunct2, THEN conjunct1]
      fz by simp
  from 1 2 show ?thesis by simp
qed

text \<open>
  Claim C3. The account list is not empty and no account name is requested (the
  parameter is missing, \<open>None\<close> or empty). The selection continues with the first
  account in list order whose \<open>is_default\<close> is true (truth value testing; for a
  boolean flag, the flag itself); when no account is marked so, with the element at index
  0. It always continues with an account of the list, never with an error or an early
  return, and the handler behaves as if that account were the only one.
\<close>

theorem select_account_default:
  assumes "smtp_configs \<noteq> []"
    and "\<not> truthy (dict_get tool_parameters (ascii ''sender_account''))"
  shows
    "(\<forall>pre c post.
        smtp_configs = pre @ c # post \<and>
        truthy (dict_get_default c (ascii ''is_default'') (VBool False)) \<and>
        (\<forall>c'\<in>set pre. \<not> truthy (dict_get_default c' (ascii ''is_default'') (VBool False))) \<longrightarrow>
        select_account smtp_configs tool_parameters = Continue c) \<and>
     ((\<forall>c\<in>set smtp_configs. \<not> truthy (dict_get_default c (ascii ''is_default'') (VBool False))) \<longrightarrow>
        select_account smtp_configs tool_parameters = Continue (smtp_configs ! 0)) \<and>
     (\<exists>c\<in>set smtp_configs.
        select_account smtp_configs tool_parameters = Continue c \<and>
        invoke w (Some smtp_configs) tool_parameters = invoke w (Some [c]) tool_parameters)"
proof (intro conjI allI impI)
  fix pre c post
  assume "smtp_configs = pre @ c # post \<and>
        truthy (dict_get_default c (ascii ''is_default'') (VBool False)) \<and>
        (\<forall>c'\<in>set pre. \<not> truthy (dict_get_default c' (ascii ''is_default'') (VBool False)))"
  then show "select_account smtp_configs tool_parameters = Continue c"
    using select_default_found [OF assms(2), of c pre post] by simp
next
  assume "\<forall>c\<in>set smtp_configs. \<not> truthy (dict_get_default c (ascii ''is_default'') (VBool False))"
  then show "select_account smtp_configs tool_parameters = Continue (smtp_configs ! 0)"
    using select_default_fallback [OF assms(2)] assms(1) by (cases smtp_configs) auto
next
  let ?P = "\<lambda>c. truthy (dict_get_default c (ascii ''is_default'') (VBool False))"
  obtain c0 rest where cs: "smtp_configs = c0 # rest" using assms(1) by (cases smtp_configs) auto
  show "\<exists>c\<in>set smtp_configs.
        select_account smtp_configs tool_parameters = Continue c \<and>
        invoke w (Some smtp_configs) tool_parameters = invoke w (Some [c]) tool_parameters"
  proof (cases "\<exists>c\<in>set smtp_configs. ?P c")
    case True
    then obtain pre c post where sp: "smtp_configs = pre @ c # post" "?P c" "\<forall>x\<in>set pre. \<not> ?P x"
      using split_first [of smtp_configs ?P] by blast
    have s: "select_account smtp_configs tool_parameters = Continue c"
      using select_default_found [OF assms(2) sp(2,3)] sp(1) by simp
    have "select_account [c] tool_parameters = Continue c"
      using select_default_found [OF assms(2) sp(2), of "[]" "[]"] by simp
    with assms(1) s have "invoke w (Some smtp_configs) tool_parameters
        = invoke w (Some [c]) tool_parameters" by (rule invoke_selected)
    with s sp(1) show ?thesis by auto
  next
    case False
    then have s: "select_account smtp_configs tool_parameters = Continue c0"
      using select_default_fallback [OF assms(2), of c0 rest] cs by simp
    have "select_account [c0] tool_parameters = Continue c0"
      using select_default_fallback [OF assms(2), of c0 "[]"] False cs by simp
    with assms(1) s have "invoke w (Some smtp_configs) tool_parameters
        = invoke w (Some [c0]) tool_parameters" by (rule invoke_selected)
    with s cs show ?thesis by auto
  qed
qed


theorem select_account_default_witness:
  "select_account [account_a, account_b] [] = Continue account_b \<and>
   select_account [account_a] [(ascii ''sender_account'', VStr [])] = Continue account_a"
proof -
  have n1: "\<not> truthy (dict_get [] (ascii ''sender_account''))" by (simp add: dict_get_def)
  have n2: "\<not> truthy (dict_get [(ascii ''sender_account'', VStr [])] (ascii ''sender_account''))"
    by (simp add: dict_get_def)
  have ne: "[account_a, account_b] \<noteq> []" and ne1: "[account_a] \<noteq> []" by simp_all
  have db: "truthy (dict_get_default account_b (ascii ''is_default'') (VBool False))"
    by (simp add: dict_get_default_def account_b_def ascii_def)
  have da: "\<forall>c\<in>set [account_a].
      \<not> truthy (dict_get_default c (ascii ''is_default'') (VBool False))"
    by (simp add: dict_get_default_def account_a_def ascii_def)
  have 1: "select_account [account_a, account_b] [] = Continue account_b"
    using select_account_default [OF ne n1, of example_world, THEN conjunct1, rule_format,
        of "[account_a]" account_b "[]"] db da by simp
  have 2: "select_account [account_a] [(ascii ''sender_account'', VStr [])] = Continue account_a"
    using select_account_default [OF ne1 n2, of example_world, THEN conjunct2, THEN conjunct1]
      da by simp
  from 1 2 show ?thesis by simp
qed

lemma select_account_no_raise: "cs \<noteq> [] \<Longrightarrow> select_account cs tp \<noteq> Raise e"
  by (cases cs) (auto simp: select_account_def Let_def split: option.splits)

lemma select_account_return_text:
  "select_account cs tp = Return m \<Longrightarrow> \<exists>t. m = TextMessage t"
  by (auto simp: select_account_def Let_def split: option.splits if_splits list.splits)

lemma get_emails_str:
  "dict_get_default tp k (VStr []) = VStr s \<Longrightarrow> get_emails tp k = Inr (parse_emails s)"
  by (simp add: get_emails_def)

text \<open>
  Claim C1, as amended. When \<open>to_emails\<close> is a string (or missing) that parses to
  no address, the handler asks nothing of the transport and returns a plain text
  message, which has no \<open>status\<close> field: it is not a JSON result. When there are
  accounts and one was selected, the text is the fixed diagnostic, which names
  \<open>to_emails\<close>.
\<close>

theorem invoke_empty_recipients:
  assumes "dict_get_default tool_parameters (ascii ''to_emails'') (VStr []) = VStr s"
    and "parse_emails s = []"
  shows
    "snd (invoke w smtp_accounts tool_parameters) = [] \<and>
     (\<exists>t. fst (invoke w smtp_accounts tool_parameters) = Inr (TextMessage t)) \<and>
     result_status (fst (invoke w smtp_accounts tool_parameters)) = None \<and>
     (\<forall>cs c. smtp_accounts = Some cs \<and> cs \<noteq> [] \<and>
        select_account cs tool_parameters = Continue c \<longrightarrow>
        invoke w smtp_accounts tool_parameters = (Inr (TextMessage empty_to_text), [])) \<and>
     (\<exists>p q. empty_to_text = p @ ascii ''to_emails'' @ q)"
proof -
  let ?cs = "case smtp_accounts of None \<Rightarrow> [] | Some cs \<Rightarrow> cs"
  have ge: "get_emails tool_parameters (ascii ''to_emails'') = Inr []"
    using get_emails_str [OF assms(1)] assms(2) by simp
  have main: "\<exists>t. invoke w smtp_accounts tool_parameters = (Inr (TextMessage t), [])"
  proof (cases "?cs = []")
    case True
    then show ?thesis by (simp add: invoke_def)
  next
    case False
    show ?thesis
    proof (cases "select_account ?cs tool_parameters")
      case (Raise e)
      with select_account_no_raise [OF False] show ?thesis by blast
    next
      case (Return m)
      then obtain t where "m = TextMessage t" using select_account_return_text by blast
      with Return False show ?thesis by (simp add: invoke_def)
    next
      case (Continue c)
      with False ge show ?thesis by (simp add: invoke_def)
    qed
  qed
  then obtain t where t: "invoke w smtp_accounts tool_parameters = (Inr (TextMessage t), [])"
    by blast
  have 4: "\<forall>cs c. smtp_accounts = Some cs \<and> cs \<noteq> [] \<and>
        select_account cs tool_parameters = Continue c \<longrightarrow>
        invoke w smtp_accounts tool_parameters = (Inr (TextMessage empty_to_text), [])"
    using ge by (auto simp: invoke_def)
  have 5: "\<exists>p q. empty_to_text = p @ ascii ''to_emails'' @ q"
    unfolding empty_to_text_def by blast
  from t 4 5 show ?thesis by (simp add: result_status_def status_of_def)
qed

theorem invoke_empty_recipients_witness:
  "invoke example_world (Some [account_a, account_b]) [(ascii ''to_emails'', VStr (ascii '' , ''))]
     = (Inr (TextMessage empty_to_text), []) \<and>
   snd (invoke example_world (Some [account_a])
          [(ascii ''sender_account'', VStr (ascii ''z''))]) = []"
proof -
  have p1: "dict_get_default [(ascii ''to_emails'', VStr (ascii '' , ''))] (ascii ''to_emails'')
      (VStr []) = VStr (ascii '' , '')" by (simp add: dict_get_default_def)
  have p2: "parse_emails (ascii '' , '') = []"
    by (simp add: parse_emails_def ascii_def str_strip_def isspace_def comma_def)
  have s: "select_account [account_a, account_b] [(ascii ''to_emails'', VStr (ascii '' , ''))]
      = Continue account_b"
    by (simp add: select_account_def dict_get_def dict_get_default_def account_a_def
        account_b_def ascii_def)
  have q1: "dict_get_default [(ascii ''sender_account'', VStr (ascii ''z''))] (ascii ''to_emails'')
      (VStr []) = VStr []" by (simp add: dict_get_default_def ascii_def)
  have q2: "parse_emails [] = []" by (simp add: parse_emails_def str_strip_def)
  have 1: "invoke example_world (Some [account_a, account_b])
      [(ascii ''to_emails'', VStr (ascii '' , ''))] = (Inr (TextMessage empty_to_text), [])"
    using invoke_empty_recipients [OF p1 p2, of example_world "Some [account_a, account_b]",
        THEN conjunct2, THEN conjunct2, THEN conjunct2, THEN conjunct1, rule_format,
        of "[account_a, account_b]" account_b] s by simp
  have 2: "snd (invoke example_world (Some [account_a])
          [(ascii ''sender_account'', VStr (ascii ''z''))]) = []"
    using invoke_empty_recipients [OF q1 q2, of example_world "Some [account_a]"] by simp
  from 1 2 show ?thesis by simp
qed

text \<open>
  The claim as first stated fails: with one account and \<open>to_emails = ""\<close> the handler
  returns the text message, whose status is not \<open>error\<close>.
\<close>

theorem empty_recipients_counterexample:
  "parse_emails [] = [] \<and>
   fst (invoke example_world (Some [account_a]) [(ascii ''to_emails'', VStr [])])
     = Inr (TextMessage empty_to_text) \<and>
   result_status (fst (invoke example_world (Some [account_a]) [(ascii ''to_emails'', VStr [])]))
     \<noteq> Some (VStr (ascii ''error''))"
proof -
  have s: "select_account [account_a] [(ascii ''to_emails'', VStr [])] = Continue account_a"
    by (simp add: select_account_def dict_get_def dict_get_default_def account_a_def ascii_def)
  have g: "get_emails [(ascii ''to_emails'', VStr [])] (ascii ''to_emails'') = Inr []"
    by (simp add: get_emails_def dict_get_default_def parse_emails_def str_strip_def)
  have i: "invoke example_world (Some [account_a]) [(ascii ''to_emails'', VStr [])]
      = (Inr (TextMessage empty_to_text), [])"
    using s g by (simp add: invoke_def)
  show ?thesis
    by (simp add: i result_status_def status_of_def parse_emails_def str_strip_def)
qed

lemma extract_fields_cases:
  "(map_of c (ascii ''server'') = None \<longrightarrow>
      extract_fields w c = Inl (KeyError (ascii ''server''))) \<and>
   (map_of c (ascii ''server'') \<noteq> None \<and> map_of c (ascii ''port'') = None \<longrightarrow>
      extract_fields w c = Inl (KeyError (ascii ''port''))) \<and>
   (\<forall>p e. map_of c (ascii ''server'') \<noteq> None \<and> map_of c (ascii ''port'') = Some p \<and>
      py_int w p = Inl e \<longrightarrow> extract_fields w c = Inl e) \<and>
   (\<forall>p i. map_of c (ascii ''server'') \<noteq> None \<and> map_of c (ascii ''port'') = Some p \<and>
      py_int w p = Inr i \<longrightarrow>
        (map_of c (ascii ''user'') = None \<longrightarrow>
           extract_fields w c = Inl (KeyError (ascii ''user''))) \<and>
        (map_of c (ascii ''user'') \<noteq> None \<and> map_of c (ascii ''password'') = None \<longrightarrow>
           extract_fields w c = Inl (KeyError (ascii ''password''))) \<and>
        (map_of c (ascii ''user'') \<noteq> None \<and> map_of c (ascii ''password'') \<noteq> None \<and>
         map_of c (ascii ''sender_name'') = None \<longrightarrow>
           extract_fields w c = Inl (KeyError (ascii ''sender_name''))))"
  by (auto simp: extract_fields_def try_then_def dict_item_def)

lemma invoke_extract_failure:
  assumes "cs \<noteq> []" "select_account cs tp = Continue c"
    and "get_emails tp (ascii ''to_emails'') = Inr to" "to \<noteq> []"
    and "get_emails tp (ascii ''cc_emails'') = Inr cc"
    and "get_emails tp (ascii ''bcc_emails'') = Inr bcc"
    and "extract_fields w c = Inl e"
  shows "invoke w (Some cs) tp = (Inr (JsonMessage (error_result e)), [])"
  using assms by (simp add: invoke_def try_body_def)


text \<open>
  Claim C10. The handler has selected an account and parsed the three recipient lists,
  \<open>to_emails\<close> not empty. Whenever reading the account's fields fails with an
  exception \<open>e\<close>, the handler returns the JSON result with status \<open>error\<close> and the
  send-failure prefix followed by \<open>str(e)\<close>, the same \<open>error_result\<close> that reports a
  transport failure, and asks nothing of the transport. Reading fails with a
  \<open>KeyError\<close> at the first of \<open>server\<close>, \<open>port\<close>, \<open>user\<close>, \<open>password\<close>,
  \<open>sender_name\<close> that is missing, and with the exception of \<open>int\<close> when the port
  does not convert.
\<close>

theorem extraction_failure_reported:
  assumes "smtp_configs \<noteq> []"
    and "select_account smtp_configs tool_parameters = Continue target_config"
    and "get_emails tool_parameters (ascii ''to_emails'') = Inr to_emails"
    and "to_emails \<noteq> []"
    and "get_emails tool_parameters (ascii ''cc_emails'') = Inr cc_emails"
    and "get_emails tool_parameters (ascii ''bcc_emails'') = Inr bcc_emails"
  shows
    "(\<forall>e. extract_fields w target_config = Inl e \<longrightarrow>
        invoke w (Some smtp_configs) tool_parameters = (Inr (JsonMessage (error_result e)), []) \<and>
        error_result e = [(ascii ''status'', VStr (ascii ''error'')),
                          (ascii ''error_message'', VStr (send_failed_prefix @ exn_str e))]) \<and>
     (map_of target_config (ascii ''server'') = None \<longrightarrow>
        extract_fields w target_config = Inl (KeyError (ascii ''server''))) \<and>
     (map_of target_config (ascii ''server'') \<noteq> None \<and>
      map_of target_config (ascii ''port'') = None \<longrightarrow>
        extract_fields w target_config = Inl (KeyError (ascii ''port''))) \<and>
     (\<forall>p e. map_of target_config (ascii ''server'') \<noteq> None \<and>
        map_of target_config (ascii ''port'') = Some p \<and> py_int w p = Inl e \<longrightarrow>
        extract_fields w target_config = Inl e) \<and>
     (\<forall>p i. map_of target_config (ascii ''server'') \<noteq> None \<and>
        map_of target_config (ascii ''port'') = Some p \<and> py_int w p = Inr i \<longrightarrow>
        (map_of target_config (ascii ''user'') = None \<longrightarrow>
           extract_fields w target_config = Inl (KeyError (ascii ''user''))) \<and>
        (map_of target_config (ascii ''user'') \<noteq> None \<and>
         map_of target_config (ascii ''password'') = None \<longrightarrow>
           extract_fields w target_config = Inl (KeyError (ascii ''password''))) \<and>
        (map_of target_config (ascii ''user'') \<noteq> None \<and>
         map_of target_config (ascii ''password'') \<noteq> None \<and>
         map_of target_config (ascii ''sender_name'') = None \<longrightarrow>
           extract_fields w target_config = Inl (KeyError (ascii ''sender_name''))))"
proof -
  have a: "\<forall>e. extract_fields w target_config = Inl e \<longrightarrow>
        invoke w (Some smtp_configs) tool_parameters = (Inr (JsonMessage (error_result e)), []) \<and>
        error_result e = [(ascii ''status'', VStr (ascii ''error'')),
                          (ascii ''error_message'', VStr (send_failed_prefix @ exn_str e))]"
    using invoke_extract_failure [OF assms] by (simp add: error_result_def)
  show ?thesis
    using a extract_fields_cases [of target_config w] by blast
qed

theorem extraction_failure_reported_witness:
  "invoke example_world (Some [[(ascii ''name'', VStr (ascii ''n''))]])
       [(ascii ''to_emails'', VStr (ascii ''t@x.com''))]
     = (Inr (JsonMessage (error_result (KeyError (ascii ''server'')))), []) \<and>
   invoke example_world
       (Some [[(ascii ''server'', VStr (ascii ''s'')), (ascii ''port'', VStr (ascii ''abc''))]])
       [(ascii ''to_emails'', VStr (ascii ''t@x.com''))]
     = (Inr (JsonMessage (error_result (ValueError (ascii ''invalid literal for int()'')))), [])"
proof -
  let ?tp = "[(ascii ''to_emails'', VStr (ascii ''t@x.com''))]"
  let ?c1 = "[(ascii ''name'', VStr (ascii ''n''))]"
  let ?c2 = "[(ascii ''server'', VStr (ascii ''s'')), (ascii ''port'', VStr (ascii ''abc''))]"
  have s1: "select_account [?c1] ?tp = Continue ?c1"
    by (simp add: select_account_def dict_get_def dict_get_default_def ascii_def)
  have s2: "select_account [?c2] ?tp = Continue ?c2"
    by (simp add: select_account_def dict_get_def dict_get_default_def ascii_def)
  have t: "get_emails ?tp (ascii ''to_emails'') = Inr [ascii ''t@x.com'']"
    by (simp add: get_emails_def dict_get_default_def parse_emails_def str_strip_def
        isspace_def comma_def ascii_def)
  have ne: "[ascii ''t@x.com''] \<noteq> []" by simp
  have cc: "get_emails ?tp (ascii ''cc_emails'') = Inr []"
    by (simp add: get_emails_def dict_get_default_def parse_emails_def str_strip_def ascii_def)
  have bcc: "get_emails ?tp (ascii ''bcc_emails'') = Inr []"
    by (simp add: get_emails_def dict_get_default_def parse_emails_def str_strip_def ascii_def)
  have n1: "[?c1] \<noteq> []" and n2: "[?c2] \<noteq> []" by simp_all
  note w1 = extraction_failure_reported [OF n1 s1 t ne cc bcc, of example_world]
  note w2 = extraction_failure_reported [OF n2 s2 t ne cc bcc, of example_world]
  have k1: "map_of ?c1 (ascii ''server'') = None" by (simp add: ascii_def)
  have e1: "extract_fields example_world ?c1 = Inl (KeyError (ascii ''server''))"
    using w1 k1 by blast
  have 1: "invoke example_world (Some [?c1]) ?tp
      = (Inr (JsonMessage (error_result (KeyError (ascii ''server'')))), [])"
    using w1 e1 by blast
  have k2: "map_of ?c2 (ascii ''server'') \<noteq> None \<and>
      map_of ?c2 (ascii ''port'') = Some (VStr (ascii ''abc'')) \<and>
      py_int example_world (VStr (ascii ''abc''))
        = Inl (ValueError (ascii ''invalid literal for int()''))"
    by (simp add: py_int_def example_world_def ascii_def)
  have e2: "extract_fields example_world ?c2
      = Inl (ValueError (ascii ''invalid literal for int()''))"
    using w2 k2 by blast
  have 2: "invoke example_world (Some [?c2]) ?tp
      = (Inr (JsonMessage (error_result (ValueError (ascii ''invalid literal for int()'')))), [])"
    using w2 e2 by blast
  from 1 2 show ?thesis by simp
qed

text \<open>
  Claim C9, as amended. When the port converts to an integer, \<open>test_connection\<close>
  connects to \<open>server\<close> and that port; a failure to connect is reported as status
  \<open>error\<close> with its text. Otherwise it logs in with \<open>user\<close> and \<open>password\<close> and
  releases the connection, and nothing else: a failed login is reported as status
  \<open>error\<close> with the text of the exception that leaves the block, a failed release
  with its own text, and when neither fails the result is exactly
  \<open>{'status': 'success'}\<close>. When the port does not convert, the exception of \<open>int\<close>
  is reported in the same way and no connection is opened. No message is ever sent.
\<close>

theorem test_connection_result:
  "(\<forall>e. py_int w (dict_get credentials (ascii ''port'')) = Inl e \<longrightarrow>
      test_connection w credentials
        = ([(ascii ''status'', VStr (ascii ''error'')), (ascii ''message'', VStr (exn_str e))],
           [])) \<and>
   (\<forall>port. py_int w (dict_get credentials (ascii ''port'')) = Inr port \<longrightarrow>
      (\<forall>e. smtp_connect w (dict_get credentials (ascii ''server'')) port = Some e \<longrightarrow>
         test_connection w credentials
           = ([(ascii ''status'', VStr (ascii ''error'')),
               (ascii ''message'', VStr (exn_str e))],
              [Connect (dict_get credentials (ascii ''server'')) port])) \<and>
      (smtp_connect w (dict_get credentials (ascii ''server'')) port = None \<longrightarrow>
         snd (test_connection w credentials)
           = [Connect (dict_get credentials (ascii ''server'')) port,
              Login (dict_get credentials (ascii ''user''))
                (dict_get credentials (ascii ''password'')),
              Release] \<and>
         (\<forall>e. smtp_login w (dict_get credentials (ascii ''user''))
                 (dict_get credentials (ascii ''password'')) = Some e \<longrightarrow>
            fst (test_connection w credentials)
              = [(ascii ''status'', VStr (ascii ''error'')),
                 (ascii ''message'', VStr (exn_str (leaving w e)))]) \<and>
         (\<forall>e. smtp_exit w = Some e \<longrightarrow>
            fst (test_connection w credentials)
              = [(ascii ''status'', VStr (ascii ''error'')),
                 (ascii ''message'', VStr (exn_str e))]) \<and>
         (smtp_login w (dict_get credentials (ascii ''user''))
            (dict_get credentials (ascii ''password'')) = None \<and> smtp_exit w = None \<longrightarrow>
            fst (test_connection w credentials)
              = [(ascii ''status'', VStr (ascii ''success''))]))) \<and>
   (\<forall>sender recipients text.
      Sendmail sender recipients text \<notin> set (snd (test_connection w credentials)))"
  by (auto simp: test_connection_def with_smtp_ssl_def leaving_def Let_def
      split: sum.splits option.splits)

theorem test_connection_result_witness:
  "test_connection example_world account_b
     = ([(ascii ''status'', VStr (ascii ''success''))],
        [Connect (VStr (ascii ''smtp.b.com'')) 465,
         Login (VStr (ascii ''b@b.com'')) (VStr (ascii ''pb'')), Release]) \<and>
   fst (test_connection rejecting_world account_a)
     = [(ascii ''status'', VStr (ascii ''error'')),
        (ascii ''message'', VStr (ascii ''535 authentication failed''))]"
proof -
  have pb: "py_int example_world (dict_get account_b (ascii ''port'')) = Inr 465"
    by (simp add: py_int_def dict_get_def account_b_def example_world_def ascii_def)
  have pa: "py_int rejecting_world (dict_get account_a (ascii ''port'')) = Inr 465"
    by (simp add: py_int_def dict_get_def account_a_def ascii_def)
  have gb: "dict_get account_b (ascii ''server'') = VStr (ascii ''smtp.b.com'')"
    "dict_get account_b (ascii ''user'') = VStr (ascii ''b@b.com'')"
    "dict_get account_b (ascii ''password'') = VStr (ascii ''pb'')"
    by (simp_all add: dict_get_def account_b_def ascii_def)
  have wb: "smtp_connect example_world (dict_get account_b (ascii ''server'')) 465 = None"
    "smtp_login example_world (dict_get account_b (ascii ''user''))
       (dict_get account_b (ascii ''password'')) = None"
    "smtp_exit example_world = None"
    by (simp_all add: example_world_def)
  have wa: "smtp_connect rejecting_world (dict_get account_a (ascii ''server'')) 465 = None"
    "smtp_login rejecting_world (dict_get account_a (ascii ''user''))
       (dict_get account_a (ascii ''password''))
       = Some (OtherError (ascii ''535 authentication failed''))"
    "leaving rejecting_world (OtherError (ascii ''535 authentication failed''))
       = OtherError (ascii ''535 authentication failed'')"
    by (simp_all add: rejecting_world_def example_world_def leaving_def)
  note tb = test_connection_result [of example_world account_b, THEN conjunct2, THEN conjunct1,
      rule_format, OF pb, THEN conjunct2, rule_format, OF wb(1)]
  note ta = test_connection_result [of rejecting_world account_a, THEN conjunct2, THEN conjunct1,
      rule_format, OF pa, THEN conjunct2, rule_format, OF wa(1)]
  have 1: "snd (test_connection example_world account_b)
      = [Connect (VStr (ascii ''smtp.b.com'')) 465,
         Login (VStr (ascii ''b@b.com'')) (VStr (ascii ''pb'')), Release]"
    using tb gb by simp
  have 2: "fst (test_connection example_world account_b)
      = [(ascii ''status'', VStr (ascii ''success''))]"
    using tb wb by blast
  have 3: "fst (test_connection rejecting_world account_a)
     = [(ascii ''status'', VStr (ascii ''error'')),
        (ascii ''message'', VStr (ascii ''535 authentication failed''))]"
    using ta wa(2,3) by (metis exn_str.simps(6))
  from 1 2 3 show ?thesis by (simp add: prod_eq_iff)
qed

text \<open>
  The claim as first stated fails: for the empty record the port is \<open>None\<close>, no
  connection is opened and the result is an error, though connecting and logging in
  would both succeed.
\<close>

theorem test_connection_counterexample:
  "smtp_connect example_world VNone 0 = None \<and>
   smtp_login example_world VNone VNone = None \<and>
   snd (test_connection example_world []) = [] \<and>
   map_of (fst (test_connection example_world [])) (ascii ''status'')
     = Some (VStr (ascii ''error'')) \<and>
   fst (test_connection example_world []) \<noteq> [(ascii ''status'', VStr (ascii ''success''))]"
  by (simp add: test_connection_def py_int_def dict_get_def example_world_def ascii_def)

lemma invoke_forward:
  assumes "cs \<noteq> []" "select_account cs tp = Continue c"
    and "get_emails tp (ascii ''to_emails'') = Inr to" "to \<noteq> []"
    and "get_emails tp (ascii ''cc_emails'') = Inr cc"
    and "get_emails tp (ascii ''bcc_emails'') = Inr bcc"
  shows "invoke w (Some cs) tp =
     (case try_body w c
             (dict_get_default tp (ascii ''subject'') (VStr default_subject))
             (dict_get_default tp (ascii ''body'') (VStr []))
             (dict_get_default tp (ascii ''mail_type'') (VStr (ascii ''html'')))
             (dict_get_default tp (ascii ''encoding'') (VStr (ascii ''utf-8'')))
             to cc bcc of
        (None, tr) \<Rightarrow> (Inr (JsonMessage success_result), tr)
      | (Some e, tr) \<Rightarrow> (Inr (JsonMessage (error_result e)), tr))"
  using assms by (simp add: invoke_def)

lemma invoke_reaches:
  assumes "snd (invoke w accs tp) \<noteq> []"
  shows "\<exists>cs c to cc bcc. accs = Some cs \<and> cs \<noteq> [] \<and> select_account cs tp = Continue c \<and>
     get_emails tp (ascii ''to_emails'') = Inr to \<and> to \<noteq> [] \<and>
     get_emails tp (ascii ''cc_emails'') = Inr cc \<and>
     get_emails tp (ascii ''bcc_emails'') = Inr bcc"
proof -
  obtain cs where cs: "accs = Some cs" "cs \<noteq> []"
    using assms by (cases accs) (auto simp: invoke_def split: if_splits)
  obtain c where c: "select_account cs tp = Continue c"
    using assms cs by (cases "select_account cs tp") (auto simp: invoke_def)
  obtain to where to: "get_emails tp (ascii ''to_emails'') = Inr to"
    using assms cs c by (cases "get_emails tp (ascii ''to_emails'')") (auto simp: invoke_def)
  have ne: "to \<noteq> []" using assms cs c to by (auto simp: invoke_def)
  obtain cc where cc: "get_emails tp (ascii ''cc_emails'') = Inr cc"
    using assms cs c to ne
    by (cases "get_emails tp (ascii ''cc_emails'')") (auto simp: invoke_def)
  obtain bcc where bcc: "get_emails tp (ascii ''bcc_emails'') = Inr bcc"
    using assms cs c to ne cc
    by (cases "get_emails tp (ascii ''bcc_emails'')") (auto simp: invoke_def)
  from cs c to ne cc bcc show ?thesis by blast
qed

lemma try_body_reaches:
  assumes "snd (try_body w c subj body mt enc to cc bcc) \<noteq> []"
  shows "\<exists>server port user pw sn m.
     extract_fields w c = Inr (server, port, user, pw, sn) \<and>
     compose w body mt enc sn user to cc subj = Inr m \<and>
     try_body w c subj body mt enc to cc bcc
       = with_smtp_ssl w server port (login_and_send w user pw (to @ cc @ bcc) m)"
proof -
  obtain server port user pw sn where e: "extract_fields w c = Inr (server, port, user, pw, sn)"
    using assms by (cases "extract_fields w c") (auto simp: try_body_def)
  obtain m where m: "compose w body mt enc sn user to cc subj = Inr m"
    using assms e by (cases "compose w body mt enc sn user to cc subj") (auto simp: try_body_def)
  from e m show ?thesis by (simp add: try_body_def)
qed

lemma try_body_forward:
  "extract_fields w c = Inr (server, port, user, pw, sn) \<Longrightarrow>
   compose w body mt enc sn user to cc subj = Inr m \<Longrightarrow>
   try_body w c subj body mt enc to cc bcc
     = with_smtp_ssl w server port (login_and_send w user pw (to @ cc @ bcc) m)"
  by (simp add: try_body_def)

lemma transmit_outcome:
  "with_smtp_ssl w server port (login_and_send w user pw rc m) =
     (case smtp_connect w server port of
        Some e \<Rightarrow> (Some e, [Connect server port])
      | None \<Rightarrow>
         (case smtp_login w user pw of
            Some e \<Rightarrow> (Some (leaving w e), [Connect server port, Login user pw, Release])
          | None \<Rightarrow>
             (case as_string w m of
                Inl e \<Rightarrow> (Some (leaving w e), [Connect server port, Login user pw, Release])
              | Inr t \<Rightarrow>
                 (case smtp_sendmail w user rc t of
                    Some e \<Rightarrow> (Some (leaving w e),
                      [Connect server port, Login user pw, Sendmail user rc t, Release])
                  | None \<Rightarrow> (smtp_exit w,
                      [Connect server port, Login user pw, Sendmail user rc t, Release])))))"
  by (simp add: with_smtp_ssl_def login_and_send_def leaving_def
      split: option.splits sum.splits)

lemma error_result_fields:
  "status_of (JsonMessage (error_result e)) = Some (VStr (ascii ''error'')) \<and>
   map_of (error_result e) (ascii ''error_message'') = Some (VStr (send_failed_prefix @ exn_str e))"
  by (simp add: status_of_def error_result_def ascii_def)

text \<open>
  Claim C5, as amended. The handler has reached the transport (it asked something of
  it). Then it returns a JSON result, so no exception escapes. It asks for one
  connection, at most one login and at most one send, and releases a connection it
  opened: nothing is tried twice. If the connection fails with \<open>e\<close>, the result is
  \<open>error_result e\<close>; if the login or the send fails with \<open>e\<close>, the result is
  \<open>error_result\<close> of the exception the handler catches, the one that leaves the
  \<open>with\<close> block: \<open>e\<close> itself when the release does not raise, the exception of the
  release when it does. An \<open>error_result\<close> has status \<open>error\<close> and as message the
  fixed send-failure prefix followed by \<open>str\<close> of that exception.
\<close>

theorem transport_failure_reported:
  assumes "snd (invoke w smtp_accounts tool_parameters) \<noteq> []"
  shows
    "(\<exists>d. fst (invoke w smtp_accounts tool_parameters) = Inr (JsonMessage d)) \<and>
     (\<exists>server port user password.
        snd (invoke w smtp_accounts tool_parameters) = [Connect server port] \<or>
        snd (invoke w smtp_accounts tool_parameters)
          = [Connect server port, Login user password, Release] \<or>
        (\<exists>sender recipients text.
           snd (invoke w smtp_accounts tool_parameters)
             = [Connect server port, Login user password,
                Sendmail sender recipients text, Release])) \<and>
     (\<forall>server port e.
        Connect server port \<in> set (snd (invoke w smtp_accounts tool_parameters)) \<and>
        smtp_connect w server port = Some e \<longrightarrow>
        fst (invoke w smtp_accounts tool_parameters) = Inr (JsonMessage (error_result e))) \<and>
     (\<forall>user password e.
        Login user password \<in> set (snd (invoke w smtp_accounts tool_parameters)) \<and>
        smtp_login w user password = Some e \<longrightarrow>
        fst (invoke w smtp_accounts tool_parameters)
          = Inr (JsonMessage (error_result (leaving w e)))) \<and>
     (\<forall>sender recipients text e.
        Sendmail sender recipients text \<in> set (snd (invoke w smtp_accounts tool_parameters)) \<and>
        smtp_sendmail w sender recipients text = Some e \<longrightarrow>
        fst (invoke w smtp_accounts tool_parameters)
          = Inr (JsonMessage (error_result (leaving w e)))) \<and>
     (\<forall>e. status_of (JsonMessage (error_result e)) = Some (VStr (ascii ''error'')) \<and>
        map_of (error_result e) (ascii ''error_message'')
          = Some (VStr (send_failed_prefix @ exn_str e))) \<and>
     (\<forall>e. smtp_exit w = None \<longrightarrow> leaving w e = e)"
proof -
  from invoke_reaches [OF assms] obtain cs c to cc bcc where
    r: "smtp_accounts = Some cs" "cs \<noteq> []" "select_account cs tool_parameters = Continue c"
      "get_emails tool_parameters (ascii ''to_emails'') = Inr to" "to \<noteq> []"
      "get_emails tool_parameters (ascii ''cc_emails'') = Inr cc"
      "get_emails tool_parameters (ascii ''bcc_emails'') = Inr bcc"
    by blast
  let ?subj = "dict_get_default tool_parameters (ascii ''subject'') (VStr default_subject)"
  let ?body = "dict_get_default tool_parameters (ascii ''body'') (VStr [])"
  let ?mt = "dict_get_default tool_parameters (ascii ''mail_type'') (VStr (ascii ''html''))"
  let ?enc = "dict_get_default tool_parameters (ascii ''encoding'') (VStr (ascii ''utf-8''))"
  let ?tb = "try_body w c ?subj ?body ?mt ?enc to cc bcc"
  have inv: "invoke w smtp_accounts tool_parameters =
     (case ?tb of (None, tr) \<Rightarrow> (Inr (JsonMessage success_result), tr)
      | (Some e, tr) \<Rightarrow> (Inr (JsonMessage (error_result e)), tr))"
    unfolding r(1) by (rule invoke_forward [OF r(2-7)])
  have tr: "snd (invoke w smtp_accounts tool_parameters) = snd ?tb"
    unfolding inv by (simp split: prod.splits option.splits)
  with assms have "snd ?tb \<noteq> []" by simp
  from try_body_reaches [OF this] obtain server port user pw sn m where
    tb: "?tb = with_smtp_ssl w server port (login_and_send w user pw (to @ cc @ bcc) m)"
    by blast
  note out = inv [unfolded tb transmit_outcome]
  have 1: "\<exists>d. fst (invoke w smtp_accounts tool_parameters) = Inr (JsonMessage d)"
    unfolding out by (simp split: option.splits sum.splits)
  have 2: "\<exists>server port user password.
        snd (invoke w smtp_accounts tool_parameters) = [Connect server port] \<or>
        snd (invoke w smtp_accounts tool_parameters)
          = [Connect server port, Login user password, Release] \<or>
        (\<exists>sender recipients text.
           snd (invoke w smtp_accounts tool_parameters)
             = [Connect server port, Login user password,
                Sendmail sender recipients text, Release])"
    unfolding out by (simp split: option.splits sum.splits)
  have 3: "\<forall>server port e.
        Connect server port \<in> set (snd (invoke w smtp_accounts tool_parameters)) \<and>
        smtp_connect w server port = Some e \<longrightarrow>
        fst (invoke w smtp_accounts tool_parameters) = Inr (JsonMessage (error_result e))"
    unfolding out by (auto split: option.splits sum.splits)
  have 4: "\<forall>user password e.
        Login user password \<in> set (snd (invoke w smtp_accounts tool_parameters)) \<and>
        smtp_login w user password = Some e \<longrightarrow>
        fst (invoke w smtp_accounts tool_parameters)
          = Inr (JsonMessage (error_result (leaving w e)))"
    unfolding out by (auto split: option.splits sum.splits)
  have 5: "\<forall>sender recipients text e.
        Sendmail sender recipients text \<in> set (snd (invoke w smtp_accounts tool_parameters)) \<and>
        smtp_sendmail w sender recipients text = Some e \<longrightarrow>
        fst (invoke w smtp_accounts tool_parameters)
          = Inr (JsonMessage (error_result (leaving w e)))"
    unfolding out by (auto split: option.splits sum.splits)
  have 6: "\<forall>e. smtp_exit w = None \<longrightarrow> leaving w e = e" by (simp add: leaving_def)
  from 1 2 3 4 5 6 error_result_fields show ?thesis by blast
qed

theorem transport_failure_reported_witness:
  "invoke rejecting_world (Some [account_a, account_b])
     [(ascii ''sender_account'', VStr (ascii ''a'')), (ascii ''to_emails'', VStr (ascii ''t@x.com''))]
   = (Inr (JsonMessage (error_result (OtherError (ascii ''535 authentication failed'')))),
      [Connect (VStr (ascii ''smtp.a.com'')) 465,
       Login (VStr (ascii ''a@a.com'')) (VStr (ascii ''pa'')), Release]) \<and>
   map_of (error_result (OtherError (ascii ''535 authentication failed'')))
       (ascii ''error_message'')
     = Some (VStr (send_failed_prefix @ ascii ''535 authentication failed''))"
proof -
  let ?tp = "[(ascii ''sender_account'', VStr (ascii ''a'')),
              (ascii ''to_emails'', VStr (ascii ''t@x.com''))]"
  let ?e = "OtherError (ascii ''535 authentication failed'')"
  have tr: "snd (invoke rejecting_world (Some [account_a, account_b]) ?tp)
      = [Connect (VStr (ascii ''smtp.a.com'')) 465,
         Login (VStr (ascii ''a@a.com'')) (VStr (ascii ''pa'')), Release]"
    by (simp add: invoke_def select_account_def get_emails_def dict_get_def dict_get_default_def
      extract_fields_def try_then_def dict_item_def py_int_def compose_def set_header_def
      with_smtp_ssl_def login_and_send_def try_body_def rejecting_world_def example_world_def
      account_a_def account_b_def parse_emails_def str_strip_def isspace_def comma_def
      ascii_def)
  then have ne: "snd (invoke rejecting_world (Some [account_a, account_b]) ?tp) \<noteq> []" by simp
  note t = transport_failure_reported [OF ne]
  have lg: "Login (VStr (ascii ''a@a.com'')) (VStr (ascii ''pa''))
      \<in> set (snd (invoke rejecting_world (Some [account_a, account_b]) ?tp))"
    unfolding tr by simp
  have rj: "smtp_login rejecting_world (VStr (ascii ''a@a.com'')) (VStr (ascii ''pa'')) = Some ?e"
    by (simp add: rejecting_world_def)
  have ex: "smtp_exit rejecting_world = None" by (simp add: rejecting_world_def example_world_def)
  have lv: "leaving rejecting_world ?e = ?e" using t ex by blast
  have f: "fst (invoke rejecting_world (Some [account_a, account_b]) ?tp)
      = Inr (JsonMessage (error_result (leaving rejecting_world ?e)))"
    using t lg rj by blast
  have m: "map_of (error_result ?e) (ascii ''error_message'')
     = Some (VStr (send_failed_prefix @ exn_str ?e))"
    using t by blast
  from tr f lv m show ?thesis by (simp add: prod_eq_iff)
qed

text \<open>
  The claim as first stated fails: the server rejects the login with \<open>535\<close> and the
  release raises \<open>500 oops\<close>; the message reported is the prefix followed by the text
  of the release's failure, not by that of the login's.
\<close>

theorem transport_failure_counterexample:
  "smtp_login faulty_release_world (VStr (ascii ''a@a.com'')) (VStr (ascii ''pa''))
     = Some (OtherError (ascii ''535 authentication failed'')) \<and>
   invoke faulty_release_world (Some [account_a, account_b])
     [(ascii ''sender_account'', VStr (ascii ''a'')), (ascii ''to_emails'', VStr (ascii ''t@x.com''))]
   = (Inr (JsonMessage (error_result (OtherError (ascii ''500 oops'')))),
      [Connect (VStr (ascii ''smtp.a.com'')) 465,
       Login (VStr (ascii ''a@a.com'')) (VStr (ascii ''pa'')), Release]) \<and>
   map_of (error_result (OtherError (ascii ''500 oops''))) (ascii ''error_message'')
     = Some (VStr (send_failed_prefix @ ascii ''500 oops'')) \<and>
   map_of (error_result (OtherError (ascii ''500 oops''))) (ascii ''error_message'')
     \<noteq> Some (VStr (send_failed_prefix @ ascii ''535 authentication failed''))"
proof -
  have 1: "smtp_login faulty_release_world (VStr (ascii ''a@a.com'')) (VStr (ascii ''pa''))
     = Some (OtherError (ascii ''535 authentication failed''))"
    by (simp add: faulty_release_world_def rejecting_world_def)
  have 2: "invoke faulty_release_world (Some [account_a, account_b])
     [(ascii ''sender_account'', VStr (ascii ''a'')), (ascii ''to_emails'', VStr (ascii ''t@x.com''))]
   = (Inr (JsonMessage (error_result (OtherError (ascii ''500 oops'')))),
      [Connect (VStr (ascii ''smtp.a.com'')) 465,
       Login (VStr (ascii ''a@a.com'')) (VStr (ascii ''pa'')), Release])"
    by (simp add: invoke_def select_account_def get_emails_def dict_get_def dict_get_default_def
      extract_fields_def try_then_def dict_item_def py_int_def compose_def set_header_def
      with_smtp_ssl_def login_and_send_def try_body_def faulty_release_world_def
      rejecting_world_def example_world_def account_a_def account_b_def parse_emails_def
      str_strip_def isspace_def comma_def ascii_def)
  have 3: "map_of (error_result (OtherError (ascii ''500 oops''))) (ascii ''error_message'')
     = Some (VStr (send_failed_prefix @ ascii ''500 oops''))"
    by (simp add: error_result_def ascii_def)
  have 4: "send_failed_prefix @ ascii ''500 oops''
      \<noteq> send_failed_prefix @ ascii ''535 authentication failed''"
    by (simp add: ascii_def)
  from 1 2 3 4 show ?thesis by simp
qed

lemma compose_headers:
  assumes "compose w body mt enc sn user to cc subj = Inr m"
  shows "\<exists>ctype cte. headers m =
     [(ascii ''Content-Type'', HStr ctype), (ascii ''MIME-Version'', HStr (ascii ''1.0'')),
      (ascii ''Content-Transfer-Encoding'', HStr cte),
      (ascii ''From'', HHeader (VStr (py_str sn @ ascii '' <'' @ py_str user @ ascii ''>'')) enc),
      (ascii ''To'', HHeader (VStr (str_join (ascii '', '') to)) enc)]
     @ (if cc = [] then [] else [(ascii ''Cc'', HHeader (VStr (str_join (ascii '', '') cc)) enc)])
     @ [(ascii ''Subject'', HHeader subj enc)]"
  using assms
  by (auto simp: compose_def try_then_def set_header_def
      split: sum.splits option.splits prod.splits if_splits)

lemma headers_facts:
  assumes "hs =
     [(ascii ''Content-Type'', HStr ctype), (ascii ''MIME-Version'', HStr (ascii ''1.0'')),
      (ascii ''Content-Transfer-Encoding'', HStr cte),
      (ascii ''From'', HHeader frm enc),
      (ascii ''To'', HHeader tov enc)]
     @ (if cc = [] then [] else [(ascii ''Cc'', HHeader ccv enc)])
     @ [(ascii ''Subject'', HHeader subj enc)]"
  shows "map fst hs =
     [ascii ''Content-Type'', ascii ''MIME-Version'', ascii ''Content-Transfer-Encoding'',
      ascii ''From'', ascii ''To'']
     @ (if cc = [] then [] else [ascii ''Cc'']) @ [ascii ''Subject'']"
    and "ascii ''Bcc'' \<notin> fst ` set hs"
    and "map_of hs (ascii ''To'') = Some (HHeader tov enc)"
    and "cc \<noteq> [] \<longrightarrow> map_of hs (ascii ''Cc'') = Some (HHeader ccv enc)"
  unfolding assms by (simp_all add: ascii_def)

lemma select_account_cong:
  "dict_get tp (ascii ''sender_account'') = dict_get tp' (ascii ''sender_account'') \<Longrightarrow>
   select_account cs tp = select_account cs tp'"
  by (simp add: select_account_def)

lemma sendmail_in_transmit:
  assumes "Sendmail sender rcpts text
      \<in> set (snd (with_smtp_ssl w server port (login_and_send w user pw rc m)))"
  shows "smtp_connect w server port = None \<and> smtp_login w user pw = None \<and>
     as_string w m = Inr text \<and> sender = user \<and> rcpts = rc"
  using assms unfolding transmit_outcome
  by (auto split: option.splits sum.splits)

lemma transmit_sendmail:
  assumes "smtp_connect w server port = None" "smtp_login w user pw = None"
    "as_string w m = Inr text"
  shows "Sendmail user rc text
      \<in> set (snd (with_smtp_ssl w server port (login_and_send w user pw rc m)))"
  unfolding transmit_outcome using assms by (simp split: option.splits)

lemma snd_invoke_forward:
  assumes "cs \<noteq> []" "select_account cs tp = Continue c"
    and "get_emails tp (ascii ''to_emails'') = Inr to" "to \<noteq> []"
    and "get_emails tp (ascii ''cc_emails'') = Inr cc"
    and "get_emails tp (ascii ''bcc_emails'') = Inr bcc"
  shows "snd (invoke w (Some cs) tp) =
     snd (try_body w c
             (dict_get_default tp (ascii ''subject'') (VStr default_subject))
             (dict_get_default tp (ascii ''body'') (VStr []))
             (dict_get_default tp (ascii ''mail_type'') (VStr (ascii ''html'')))
             (dict_get_default tp (ascii ''encoding'') (VStr (ascii ''utf-8'')))
             to cc bcc)"
  unfolding invoke_forward [OF assms] by (simp split: prod.splits option.splits)

lemma sendmail_envelope:
  assumes "Sendmail sender recipients text
      \<in> set (snd (invoke w smtp_accounts tool_parameters))"
  shows
    "\<exists>cs c to_emails cc_emails bcc_emails server port password sender_name m.
       smtp_accounts = Some cs \<and> cs \<noteq> [] \<and>
       select_account cs tool_parameters = Continue c \<and>
       get_emails tool_parameters (ascii ''to_emails'') = Inr to_emails \<and>
       get_emails tool_parameters (ascii ''cc_emails'') = Inr cc_emails \<and>
       get_emails tool_parameters (ascii ''bcc_emails'') = Inr bcc_emails \<and>
       extract_fields w c = Inr (server, port, sender, password, sender_name) \<and>
       compose w (dict_get_default tool_parameters (ascii ''body'') (VStr []))
         (dict_get_default tool_parameters (ascii ''mail_type'') (VStr (ascii ''html'')))
         (dict_get_default tool_parameters (ascii ''encoding'') (VStr (ascii ''utf-8'')))
         sender_name sender to_emails cc_emails
         (dict_get_default tool_parameters (ascii ''subject'') (VStr default_subject))
         = Inr m \<and>
       recipients = to_emails @ cc_emails @ bcc_emails \<and>
       as_string w m = Inr text \<and>
       ascii ''Bcc'' \<notin> fst ` set (headers m) \<and>
       (\<forall>b. Sendmail sender (to_emails @ cc_emails @ parse_emails b) text
              \<in> set (snd (invoke w smtp_accounts
                             ((ascii ''bcc_emails'', VStr b) # tool_parameters))))"
proof -
  have "snd (invoke w smtp_accounts tool_parameters) \<noteq> []" using assms by auto
  from invoke_reaches [OF this] obtain cs c to cc bcc where
    r: "smtp_accounts = Some cs" "cs \<noteq> []" "select_account cs tool_parameters = Continue c"
      "get_emails tool_parameters (ascii ''to_emails'') = Inr to" "to \<noteq> []"
      "get_emails tool_parameters (ascii ''cc_emails'') = Inr cc"
      "get_emails tool_parameters (ascii ''bcc_emails'') = Inr bcc"
    by blast
  let ?subj = "dict_get_default tool_parameters (ascii ''subject'') (VStr default_subject)"
  let ?body = "dict_get_default tool_parameters (ascii ''body'') (VStr [])"
  let ?mt = "dict_get_default tool_parameters (ascii ''mail_type'') (VStr (ascii ''html''))"
  let ?enc = "dict_get_default tool_parameters (ascii ''encoding'') (VStr (ascii ''utf-8''))"
  let ?tb = "try_body w c ?subj ?body ?mt ?enc to cc bcc"
  have tr: "snd (invoke w smtp_accounts tool_parameters) = snd ?tb"
    unfolding r(1) by (rule snd_invoke_forward [OF r(2-7)])
  with assms have mem: "Sendmail sender recipients text \<in> set (snd ?tb)" by simp
  then have "snd ?tb \<noteq> []" by auto
  from try_body_reaches [OF this] obtain server port user pw sn m where
    e: "extract_fields w c = Inr (server, port, user, pw, sn)"
    and m: "compose w ?body ?mt ?enc sn user to cc ?subj = Inr m"
    and tb: "?tb = with_smtp_ssl w server port (login_and_send w user pw (to @ cc @ bcc) m)"
    by blast
  from mem have s: "smtp_connect w server port = None" "smtp_login w user pw = None"
    "as_string w m = Inr text" "sender = user" "recipients = to @ cc @ bcc"
    unfolding tb using sendmail_in_transmit by blast+
  from compose_headers [OF m] obtain ctype cte where
    h: "headers m =
     [(ascii ''Content-Type'', HStr ctype), (ascii ''MIME-Version'', HStr (ascii ''1.0'')),
      (ascii ''Content-Transfer-Encoding'', HStr cte),
      (ascii ''From'', HHeader (VStr (py_str sn @ ascii '' <'' @ py_str user @ ascii ''>'')) ?enc),
      (ascii ''To'', HHeader (VStr (str_join (ascii '', '') to)) ?enc)]
     @ (if cc = [] then [] else [(ascii ''Cc'', HHeader (VStr (str_join (ascii '', '') cc)) ?enc)])
     @ [(ascii ''Subject'', HHeader ?subj ?enc)]"
    by blast
  note hf = headers_facts [OF h]
  have ind: "Sendmail sender (to @ cc @ parse_emails b) text
      \<in> set (snd (invoke w smtp_accounts ((ascii ''bcc_emails'', VStr b) # tool_parameters)))"
    for b
  proof -
    let ?tp' = "(ascii ''bcc_emails'', VStr b) # tool_parameters"
    have sel: "select_account cs ?tp' = Continue c"
      using r(3) select_account_cong [of ?tp' tool_parameters cs]
      by (simp add: dict_get_def ascii_def)
    have g1: "get_emails ?tp' (ascii ''to_emails'') = Inr to"
      using r(4) by (simp add: get_emails_def dict_get_default_def ascii_def)
    have g2: "get_emails ?tp' (ascii ''cc_emails'') = Inr cc"
      using r(6) by (simp add: get_emails_def dict_get_default_def ascii_def)
    have g3: "get_emails ?tp' (ascii ''bcc_emails'') = Inr (parse_emails b)"
      by (simp add: get_emails_def dict_get_default_def)
    have d: "dict_get_default ?tp' (ascii ''subject'') (VStr default_subject) = ?subj"
      "dict_get_default ?tp' (ascii ''body'') (VStr []) = ?body"
      "dict_get_default ?tp' (ascii ''mail_type'') (VStr (ascii ''html'')) = ?mt"
      "dict_get_default ?tp' (ascii ''encoding'') (VStr (ascii ''utf-8'')) = ?enc"
      by (simp_all add: dict_get_default_def ascii_def)
    have "snd (invoke w smtp_accounts ?tp')
        = snd (try_body w c ?subj ?body ?mt ?enc to cc (parse_emails b))"
      unfolding r(1) snd_invoke_forward [OF r(2) sel g1 r(5) g2 g3] d by (rule refl)
    also have "\<dots> = snd (with_smtp_ssl w server port
        (login_and_send w user pw (to @ cc @ parse_emails b) m))"
      by (simp add: try_body_forward [OF e m])
    finally show ?thesis
      using transmit_sendmail [OF s(1,2,3), of "to @ cc @ parse_emails b"] s(4) by simp
  qed
  show ?thesis
    using r(1,2,3,4,6,7) e [folded s(4)] m [folded s(4)] s(3,5) hf(2) ind by blast
qed

lemma invoke_sends:
  assumes "cs \<noteq> []" "select_account cs tp = Continue c"
    and "get_emails tp (ascii ''to_emails'') = Inr to" "to \<noteq> []"
    and "get_emails tp (ascii ''cc_emails'') = Inr cc"
    and "get_emails tp (ascii ''bcc_emails'') = Inr bcc"
    and "extract_fields w c = Inr (server, port, user, pw, sn)"
    and "compose w (dict_get_default tp (ascii ''body'') (VStr []))
           (dict_get_default tp (ascii ''mail_type'') (VStr (ascii ''html'')))
           (dict_get_default tp (ascii ''encoding'') (VStr (ascii ''utf-8'')))
           sn user to cc
           (dict_get_default tp (ascii ''subject'') (VStr default_subject)) = Inr m"
    and "smtp_connect w server port = None" "smtp_login w user pw = None"
    and "as_string w m = Inr raw"
  shows "snd (invoke w (Some cs) tp)
     = [Connect server port, Login user pw, Sendmail user (to @ cc @ bcc) raw, Release]"
  unfolding snd_invoke_forward [OF assms(1-6)] try_body_forward [OF assms(7,8)]
    transmit_outcome
  using assms(9-11) by (simp split: option.splits)

text \<open>
  Claim C4. Every message the handler composes has the three headers of \<open>MIMEText\<close>,
  then \<open>From\<close>, \<open>To\<close>, \<open>Cc\<close> only when \<open>cc_emails\<close> is not empty, and
  \<open>Subject\<close>; none is named \<open>Bcc\<close>; \<open>To\<close> and \<open>Cc\<close> hold the \<open>", "\<close>-joined
  lists. The handler does send: once an account is selected, the recipients are
  parsed, the account's fields are read, the message \<open>m\<close> is composed and serialised,
  and the server accepts the connection and the login, it asks exactly for the
  connection, the login, one \<open>sendmail\<close> of the serialised \<open>m\<close> to the parsed
  \<open>to_emails\<close>, then \<open>cc_emails\<close>, then \<open>bcc_emails\<close>, as they are (order kept,
  duplicates kept), and the release. Conversely every \<open>sendmail\<close> it asks for is of
  this kind: its text is the serialised message composed from the parameters and the
  account's fields, and its envelope is that concatenation. The Bcc addresses have no
  part in the message: with any other \<open>bcc_emails\<close> string the same text is sent from
  the same sender, only the end of the envelope changes.
\<close>

theorem bcc_envelope_only:
  "(\<forall>body mail_type encoding sender_name smtp_user to_emails cc_emails subject m.
      compose w body mail_type encoding sender_name smtp_user to_emails cc_emails subject
        = Inr m \<longrightarrow>
      ascii ''Bcc'' \<notin> fst ` set (headers m) \<and>
      map fst (headers m) =
        [ascii ''Content-Type'', ascii ''MIME-Version'', ascii ''Content-Transfer-Encoding'',
         ascii ''From'', ascii ''To'']
        @ (if cc_emails = [] then [] else [ascii ''Cc'']) @ [ascii ''Subject''] \<and>
      map_of (headers m) (ascii ''To'')
        = Some (HHeader (VStr (str_join (ascii '', '') to_emails)) encoding) \<and>
      (cc_emails \<noteq> [] \<longrightarrow>
         map_of (headers m) (ascii ''Cc'')
           = Some (HHeader (VStr (str_join (ascii '', '') cc_emails)) encoding))) \<and>
   (\<forall>cs c to_emails cc_emails bcc_emails server port smtp_user password sender_name m raw.
      smtp_accounts = Some cs \<longrightarrow> cs \<noteq> [] \<longrightarrow>
      select_account cs tool_parameters = Continue c \<longrightarrow>
      get_emails tool_parameters (ascii ''to_emails'') = Inr to_emails \<longrightarrow>
      to_emails \<noteq> [] \<longrightarrow>
      get_emails tool_parameters (ascii ''cc_emails'') = Inr cc_emails \<longrightarrow>
      get_emails tool_parameters (ascii ''bcc_emails'') = Inr bcc_emails \<longrightarrow>
      extract_fields w c = Inr (server, port, smtp_user, password, sender_name) \<longrightarrow>
      compose w (dict_get_default tool_parameters (ascii ''body'') (VStr []))
        (dict_get_default tool_parameters (ascii ''mail_type'') (VStr (ascii ''html'')))
        (dict_get_default tool_parameters (ascii ''encoding'') (VStr (ascii ''utf-8'')))
        sender_name smtp_user to_emails cc_emails
        (dict_get_default tool_parameters (ascii ''subject'') (VStr default_subject))
        = Inr m \<longrightarrow>
      smtp_connect w server port = None \<longrightarrow>
      smtp_login w smtp_user password = None \<longrightarrow>
      as_string w m = Inr raw \<longrightarrow>
      snd (invoke w smtp_accounts tool_parameters)
        = [Connect server port, Login smtp_user password,
           Sendmail smtp_user (to_emails @ cc_emails @ bcc_emails) raw, Release]) \<and>
   (\<forall>sender recipients raw.
      Sendmail sender recipients raw \<in> set (snd (invoke w smtp_accounts tool_parameters)) \<longrightarrow>
      (\<exists>cs c to_emails cc_emails bcc_emails server port password sender_name m.
         smtp_accounts = Some cs \<and> cs \<noteq> [] \<and>
         select_account cs tool_parameters = Continue c \<and>
         get_emails tool_parameters (ascii ''to_emails'') = Inr to_emails \<and>
         get_emails tool_parameters (ascii ''cc_emails'') = Inr cc_emails \<and>
         get_emails tool_parameters (ascii ''bcc_emails'') = Inr bcc_emails \<and>
         extract_fields w c = Inr (server, port, sender, password, sender_name) \<and>
         compose w (dict_get_default tool_parameters (ascii ''body'') (VStr []))
           (dict_get_default tool_parameters (ascii ''mail_type'') (VStr (ascii ''html'')))
           (dict_get_default tool_parameters (ascii ''encoding'') (VStr (ascii ''utf-8'')))
           sender_name sender to_emails cc_emails
           (dict_get_default tool_parameters (ascii ''subject'') (VStr default_subject))
           = Inr m \<and>
         recipients = to_emails @ cc_emails @ bcc_emails \<and>
         as_string w m = Inr raw \<and>
         ascii ''Bcc'' \<notin> fst ` set (headers m) \<and>
         (\<forall>b. Sendmail sender (to_emails @ cc_emails @ parse_emails b) raw
                \<in> set (snd (invoke w smtp_accounts
                               ((ascii ''bcc_emails'', VStr b) # tool_parameters))))))"
proof (intro conjI)
  show "\<forall>body mail_type encoding sender_name smtp_user to_emails cc_emails subject m.
      compose w body mail_type encoding sender_name smtp_user to_emails cc_emails subject
        = Inr m \<longrightarrow>
      ascii ''Bcc'' \<notin> fst ` set (headers m) \<and>
      map fst (headers m) =
        [ascii ''Content-Type'', ascii ''MIME-Version'', ascii ''Content-Transfer-Encoding'',
         ascii ''From'', ascii ''To'']
        @ (if cc_emails = [] then [] else [ascii ''Cc'']) @ [ascii ''Subject''] \<and>
      map_of (headers m) (ascii ''To'')
        = Some (HHeader (VStr (str_join (ascii '', '') to_emails)) encoding) \<and>
      (cc_emails \<noteq> [] \<longrightarrow>
         map_of (headers m) (ascii ''Cc'')
           = Some (HHeader (VStr (str_join (ascii '', '') cc_emails)) encoding))"
  proof (intro allI impI)
    fix body mail_type encoding sender_name smtp_user to_emails cc_emails subject m
    assume c: "compose w body mail_type encoding sender_name smtp_user to_emails cc_emails
        subject = Inr m"
    from compose_headers [OF c] obtain ctype cte where
      h: "headers m =
       [(ascii ''Content-Type'', HStr ctype), (ascii ''MIME-Version'', HStr (ascii ''1.0'')),
        (ascii ''Content-Transfer-Encoding'', HStr cte),
        (ascii ''From'',
         HHeader (VStr (py_str sender_name @ ascii '' <'' @ py_str smtp_user @ ascii ''>''))
           encoding),
        (ascii ''To'', HHeader (VStr (str_join (ascii '', '') to_emails)) encoding)]
       @ (if cc_emails = [] then []
          else [(ascii ''Cc'', HHeader (VStr (str_join (ascii '', '') cc_emails)) encoding)])
       @ [(ascii ''Subject'', HHeader subject encoding)]"
      by blast
    note hf = headers_facts [OF h]
    from hf show "ascii ''Bcc'' \<notin> fst ` set (headers m) \<and>
      map fst (headers m) =
        [ascii ''Content-Type'', ascii ''MIME-Version'', ascii ''Content-Transfer-Encoding'',
         ascii ''From'', ascii ''To'']
        @ (if cc_emails = [] then [] else [ascii ''Cc'']) @ [ascii ''Subject''] \<and>
      map_of (headers m) (ascii ''To'')
        = Some (HHeader (VStr (str_join (ascii '', '') to_emails)) encoding) \<and>
      (cc_emails \<noteq> [] \<longrightarrow>
         map_of (headers m) (ascii ''Cc'')
           = Some (HHeader (VStr (str_join (ascii '', '') cc_emails)) encoding))"
      by blast
  qed
next
  show "\<forall>cs c to_emails cc_emails bcc_emails server port smtp_user password sender_name m raw.
      smtp_accounts = Some cs \<longrightarrow> cs \<noteq> [] \<longrightarrow>
      select_account cs tool_parameters = Continue c \<longrightarrow>
      get_emails tool_parameters (ascii ''to_emails'') = Inr to_emails \<longrightarrow>
      to_emails \<noteq> [] \<longrightarrow>
      get_emails tool_parameters (ascii ''cc_emails'') = Inr cc_emails \<longrightarrow>
      get_emails tool_parameters (ascii ''bcc_emails'') = Inr bcc_emails \<longrightarrow>
      extract_fields w c = Inr (server, port, smtp_user, password, sender_name) \<longrightarrow>
      compose w (dict_get_default tool_parameters (ascii ''body'') (VStr []))
        (dict_get_default tool_parameters (ascii ''mail_type'') (VStr (ascii ''html'')))
        (dict_get_default tool_parameters (ascii ''encoding'') (VStr (ascii ''utf-8'')))
        sender_name smtp_user to_emails cc_emails
        (dict_get_default tool_parameters (ascii ''subject'') (VStr default_subject))
        = Inr m \<longrightarrow>
      smtp_connect w server port = None \<longrightarrow>
      smtp_login w smtp_user password = None \<longrightarrow>
      as_string w m = Inr raw \<longrightarrow>
      snd (invoke w smtp_accounts tool_parameters)
        = [Connect server port, Login smtp_user password,
           Sendmail smtp_user (to_emails @ cc_emails @ bcc_emails) raw, Release]"
    using invoke_sends by blast
next
  show "\<forall>sender recipients raw.
      Sendmail sender recipients raw \<in> set (snd (invoke w smtp_accounts tool_parameters)) \<longrightarrow>
      (\<exists>cs c to_emails cc_emails bcc_emails server port password sender_name m.
         smtp_accounts = Some cs \<and> cs \<noteq> [] \<and>
         select_account cs tool_parameters = Continue c \<and>
         get_emails tool_parameters (ascii ''to_emails'') = Inr to_emails \<and>
         get_emails tool_parameters (ascii ''cc_emails'') = Inr cc_emails \<and>
         get_emails tool_parameters (ascii ''bcc_emails'') = Inr bcc_emails \<and>
         extract_fields w c = Inr (server, port, sender, password, sender_name) \<and>
         compose w (dict_get_default tool_parameters (ascii ''body'') (VStr []))
           (dict_get_default tool_parameters (ascii ''mail_type'') (VStr (ascii ''html'')))
           (dict_get_default tool_parameters (ascii ''encoding'') (VStr (ascii ''utf-8'')))
           sender_name sender to_emails cc_emails
           (dict_get_default tool_parameters (ascii ''subject'') (VStr default_subject))
           = Inr m \<and>
         recipients = to_emails @ cc_emails @ bcc_emails \<and>
         as_string w m = Inr raw \<and>
         ascii ''Bcc'' \<notin> fst ` set (headers m) \<and>
         (\<forall>b. Sendmail sender (to_emails @ cc_emails @ parse_emails b) raw
                \<in> set (snd (invoke w smtp_accounts
                               ((ascii ''bcc_emails'', VStr b) # tool_parameters)))))"
    using sendmail_envelope by (intro allI impI)
qed

theorem bcc_envelope_only_witness:
  "snd (invoke example_world (Some [account_a, account_b])
          [(ascii ''to_emails'', VStr (ascii ''t@x.com''))])
     = [Connect (VStr (ascii ''smtp.b.com'')) 465,
        Login (VStr (ascii ''b@b.com'')) (VStr (ascii ''pb'')),
        Sendmail (VStr (ascii ''b@b.com'')) [ascii ''t@x.com'']
          (str_join [0x0A]
             [ascii ''Content-Type'', ascii ''MIME-Version'',
              ascii ''Content-Transfer-Encoding'', ascii ''From'', ascii ''To'',
              ascii ''Subject'']),
        Release] \<and>
   Sendmail (VStr (ascii ''b@b.com''))
       [ascii ''t@x.com'', ascii ''c@x.com'', ascii ''b@x.com'']
       (str_join [0x0A]
          [ascii ''Content-Type'', ascii ''MIME-Version'', ascii ''Content-Transfer-Encoding'',
           ascii ''From'', ascii ''To'', ascii ''Cc'', ascii ''Subject''])
     \<in> set (snd (invoke example_world (Some [account_a, account_b])
          [(ascii ''to_emails'', VStr (ascii ''t@x.com'')),
           (ascii ''cc_emails'', VStr (ascii ''c@x.com'')),
           (ascii ''bcc_emails'', VStr (ascii ''b@x.com''))])) \<and>
   Sendmail (VStr (ascii ''b@b.com''))
       [ascii ''t@x.com'', ascii ''c@x.com'', ascii ''o@x.com'']
       (str_join [0x0A]
          [ascii ''Content-Type'', ascii ''MIME-Version'', ascii ''Content-Transfer-Encoding'',
           ascii ''From'', ascii ''To'', ascii ''Cc'', ascii ''Subject''])
     \<in> set (snd (invoke example_world (Some [account_a, account_b])
          ((ascii ''bcc_emails'', VStr (ascii ''o@x.com'')) #
           [(ascii ''to_emails'', VStr (ascii ''t@x.com'')),
            (ascii ''cc_emails'', VStr (ascii ''c@x.com'')),
            (ascii ''bcc_emails'', VStr (ascii ''b@x.com''))])))"
proof -
  let ?accs = "[account_a, account_b]"
  let ?tp1 = "[(ascii ''to_emails'', VStr (ascii ''t@x.com''))]"
  let ?tp = "[(ascii ''to_emails'', VStr (ascii ''t@x.com'')),
              (ascii ''cc_emails'', VStr (ascii ''c@x.com'')),
              (ascii ''bcc_emails'', VStr (ascii ''b@x.com''))]"
  let ?text = "str_join [0x0A]
          [ascii ''Content-Type'', ascii ''MIME-Version'', ascii ''Content-Transfer-Encoding'',
           ascii ''From'', ascii ''To'', ascii ''Cc'', ascii ''Subject'']"
  note t1 = bcc_envelope_only [of example_world "Some ?accs" ?tp1]
  have ne: "?accs \<noteq> []" by simp
  have sel: "select_account ?accs ?tp1 = Continue account_b"
    by (simp add: select_account_def dict_get_def dict_get_default_def account_a_def
        account_b_def ascii_def)
  have gt1: "get_emails ?tp1 (ascii ''to_emails'') = Inr [ascii ''t@x.com'']"
    by (simp add: get_emails_def dict_get_default_def parse_emails_def str_strip_def
        isspace_def comma_def ascii_def)
  have ne1: "[ascii ''t@x.com''] \<noteq> []" by simp
  have gc1: "get_emails ?tp1 (ascii ''cc_emails'') = Inr []"
    by (simp add: get_emails_def dict_get_default_def parse_emails_def str_strip_def ascii_def)
  have gb1: "get_emails ?tp1 (ascii ''bcc_emails'') = Inr []"
    by (simp add: get_emails_def dict_get_default_def parse_emails_def str_strip_def ascii_def)
  have ex: "extract_fields example_world account_b
      = Inr (VStr (ascii ''smtp.b.com''), 465, VStr (ascii ''b@b.com''), VStr (ascii ''pb''),
             VStr (ascii ''B''))"
    by (simp add: extract_fields_def try_then_def dict_item_def py_int_def example_world_def
        account_b_def ascii_def)
  have "\<exists>m. compose example_world (dict_get_default ?tp1 (ascii ''body'') (VStr []))
        (dict_get_default ?tp1 (ascii ''mail_type'') (VStr (ascii ''html'')))
        (dict_get_default ?tp1 (ascii ''encoding'') (VStr (ascii ''utf-8'')))
        (VStr (ascii ''B'')) (VStr (ascii ''b@b.com'')) [ascii ''t@x.com''] []
        (dict_get_default ?tp1 (ascii ''subject'') (VStr default_subject)) = Inr m"
    by (simp add: compose_def try_then_def set_header_def example_world_def)
  then obtain m where cm: "compose example_world
        (dict_get_default ?tp1 (ascii ''body'') (VStr []))
        (dict_get_default ?tp1 (ascii ''mail_type'') (VStr (ascii ''html'')))
        (dict_get_default ?tp1 (ascii ''encoding'') (VStr (ascii ''utf-8'')))
        (VStr (ascii ''B'')) (VStr (ascii ''b@b.com'')) [ascii ''t@x.com''] []
        (dict_get_default ?tp1 (ascii ''subject'') (VStr default_subject)) = Inr m"
    by blast
  have hn: "map fst (headers m)
      = [ascii ''Content-Type'', ascii ''MIME-Version'', ascii ''Content-Transfer-Encoding'',
         ascii ''From'', ascii ''To'', ascii ''Subject'']"
    using t1 [THEN conjunct1, rule_format, OF cm] by simp
  have cn: "smtp_connect example_world (VStr (ascii ''smtp.b.com'')) 465 = None"
    by (simp add: example_world_def)
  have lg: "smtp_login example_world (VStr (ascii ''b@b.com'')) (VStr (ascii ''pb'')) = None"
    by (simp add: example_world_def)
  have as: "as_string example_world m = Inr (str_join [0x0A]
      [ascii ''Content-Type'', ascii ''MIME-Version'', ascii ''Content-Transfer-Encoding'',
       ascii ''From'', ascii ''To'', ascii ''Subject''])"
    by (simp add: example_world_def hn)
  have 1: "snd (invoke example_world (Some ?accs) ?tp1)
     = [Connect (VStr (ascii ''smtp.b.com'')) 465,
        Login (VStr (ascii ''b@b.com'')) (VStr (ascii ''pb'')),
        Sendmail (VStr (ascii ''b@b.com'')) [ascii ''t@x.com'']
          (str_join [0x0A]
             [ascii ''Content-Type'', ascii ''MIME-Version'',
              ascii ''Content-Transfer-Encoding'', ascii ''From'', ascii ''To'',
              ascii ''Subject'']),
        Release]"
    using t1 [THEN conjunct2, THEN conjunct1, rule_format,
        OF refl ne sel gt1 ne1 gc1 gb1 ex cm cn lg as]
    by simp
  have mem: "Sendmail (VStr (ascii ''b@b.com''))
       [ascii ''t@x.com'', ascii ''c@x.com'', ascii ''b@x.com''] ?text
     \<in> set (snd (invoke example_world (Some ?accs) ?tp))"
    by (simp add: invoke_def select_account_def get_emails_def dict_get_def dict_get_default_def
      extract_fields_def try_then_def dict_item_def py_int_def compose_def set_header_def
      with_smtp_ssl_def login_and_send_def try_body_def example_world_def
      account_a_def account_b_def parse_emails_def str_strip_def isspace_def comma_def
      ascii_def)
  have gt: "get_emails ?tp (ascii ''to_emails'') = Inr [ascii ''t@x.com'']"
    by (simp add: get_emails_def dict_get_default_def parse_emails_def str_strip_def
        isspace_def comma_def ascii_def)
  have gc: "get_emails ?tp (ascii ''cc_emails'') = Inr [ascii ''c@x.com'']"
    by (simp add: get_emails_def dict_get_default_def parse_emails_def str_strip_def
        isspace_def comma_def ascii_def)
  have po: "parse_emails (ascii ''o@x.com'') = [ascii ''o@x.com'']"
    by (simp add: parse_emails_def str_strip_def isspace_def comma_def ascii_def)
  from bcc_envelope_only [of example_world "Some ?accs" ?tp, THEN conjunct2, THEN conjunct2,
      rule_format, OF mem]
  obtain to cc where
    g: "get_emails ?tp (ascii ''to_emails'') = Inr to"
      "get_emails ?tp (ascii ''cc_emails'') = Inr cc"
    and ind: "\<forall>b. Sendmail (VStr (ascii ''b@b.com'')) (to @ cc @ parse_emails b) ?text
       \<in> set (snd (invoke example_world (Some ?accs)
            ((ascii ''bcc_emails'', VStr b) # ?tp)))"
    by blast
  from g gt gc have "to = [ascii ''t@x.com'']" "cc = [ascii ''c@x.com'']" by simp_all
  with ind [rule_format, of "ascii ''o@x.com''"] po mem 1 show ?thesis by simp
qed

end
